theory Spec2Isabelle
  imports Main "HOL-Library.Char_ord" "HOL-Library.List_Lexorder" "HOL-Library.AList"
begin

section \<open>Strings and the standard-library helpers the package calls\<close>

text \<open>
  Go strings are byte strings, read as UTF-8 where the library looks at characters; they are
  modelled as \<open>string\<close> (lists of 8-bit characters).

  \<open>strings.TrimSpace\<close> removes the leading and the trailing white space as Unicode
  defines it (\<open>unicode.IsSpace\<close>): TAB, LF, VT, FF, CR and the space, and U+0085, U+00A0,
  U+1680, U+2000 to U+200A, U+2028, U+2029, U+202F, U+205F and U+3000. \<open>spaceRunes\<close>
  lists their UTF-8 encodings. A byte that starts no valid encoding decodes to U+FFFD, which
  is not white space, so trimming stops there.
\<close>

abbreviation LF :: char where "LF \<equiv> CHR 0x0A"
abbreviation TAB :: char where "TAB \<equiv> CHR 0x09"
abbreviation DQ :: char where "DQ \<equiv> CHR 0x22"
abbreviation BQ :: char where "BQ \<equiv> CHR 0x60"

definition spaceRunes :: "string list" where
  "spaceRunes =
     map (\<lambda>c. [c]) [CHR 0x09, CHR 0x0A, CHR 0x0B, CHR 0x0C, CHR 0x0D, CHR 0x20] @
     [[CHR 0xC2, CHR 0x85], [CHR 0xC2, CHR 0xA0], [CHR 0xE1, CHR 0x9A, CHR 0x80]] @
     map (\<lambda>c. [CHR 0xE2, CHR 0x80, c])
       [CHR 0x80, CHR 0x81, CHR 0x82, CHR 0x83, CHR 0x84, CHR 0x85, CHR 0x86, CHR 0x87,
        CHR 0x88, CHR 0x89, CHR 0x8A, CHR 0xA8, CHR 0xA9, CHR 0xAF] @
     [[CHR 0xE2, CHR 0x81, CHR 0x9F], [CHR 0xE3, CHR 0x80, CHR 0x80]]"

text \<open>
  Dropping from the front of a string every leading occurrence of one of the byte sequences
  \<open>rs\<close>, as the loop over the decoded runes of \<open>strings.TrimLeftFunc\<close> does.
\<close>

fun dropRunes :: "string list \<Rightarrow> string \<Rightarrow> string" where
  "dropRunes rs [] = []"
| "dropRunes rs (c # s) =
     (case find (\<lambda>r. r \<noteq> [] \<and> take (length r) (c # s) = r) rs of
        Some r \<Rightarrow> dropRunes rs (drop (length r - 1) s)
      | None \<Rightarrow> c # s)"

text \<open>
  \<open>strings.TrimSpace\<close>: the leading white space is dropped, then the trailing one, which
  \<open>strings.TrimRightFunc\<close> finds by decoding the last rune again and again.
\<close>

definition TrimSpace :: "string \<Rightarrow> string" where
  "TrimSpace s = rev (dropRunes (map rev spaceRunes) (rev (dropRunes spaceRunes s)))"

definition isNotBlank :: "string \<Rightarrow> bool" where
  "isNotBlank v = (length (TrimSpace v) \<noteq> 0)"

definition FormatBool :: "bool \<Rightarrow> string" where
  "FormatBool b = (if b then ''true'' else ''false'')"

fun Itoa_nat :: "nat \<Rightarrow> string" where
  "Itoa_nat n =
     (if n < 10 then [''0123456789'' ! n]
      else Itoa_nat (n div 10) @ [''0123456789'' ! (n mod 10)])"

declare Itoa_nat.simps [simp del]

definition Itoa :: "int \<Rightarrow> string" where
  "Itoa i = (if i < 0 then CHR ''-'' # Itoa_nat (nat (- i)) else Itoa_nat (nat i))"

text \<open>\<open>strconv.ParseBool\<close>: the accepted spellings, anything else is an error.\<close>

definition ParseBool :: "string \<Rightarrow> bool option" where
  "ParseBool s =
     (if s \<in> set [''1'', ''t'', ''T'', ''TRUE'', ''true'', ''True''] then Some True
      else if s \<in> set [''0'', ''f'', ''F'', ''FALSE'', ''false'', ''False''] then Some False
      else None)"

fun TrimSuffix :: "string \<Rightarrow> string \<Rightarrow> string" where
  "TrimSuffix s suffix =
     (if length suffix \<le> length s \<and> drop (length s - length suffix) s = suffix
      then take (length s - length suffix) s else s)"

text \<open>\<open>path.Base\<close>: the last element of a slash-separated path, trailing slashes removed.\<close>

definition path_Base :: "string \<Rightarrow> string" where
  "path_Base p =
     (if p = [] then ''.''
      else let q = rev (dropWhile (\<lambda>c. c = CHR ''/'') (rev p))
           in if q = [] then ''/'' else rev (takeWhile (\<lambda>c. c \<noteq> CHR ''/'') (rev q)))"

text \<open>\<open>strings.ReplaceAll(s, "\n", r)\<close> for the one-byte pattern the package uses.\<close>

definition ReplaceAll_LF :: "string \<Rightarrow> string \<Rightarrow> string" where
  "ReplaceAll_LF s r = concat (map (\<lambda>c. if c = LF then r else [c]) s)"

fun Join :: "string list \<Rightarrow> string \<Rightarrow> string" where
  "Join [] sep = []"
| "Join [x] sep = x"
| "Join (x # y # ys) sep = x @ sep @ Join (y # ys) sep"


section \<open>Data model\<close>

type_synonym addr = nat

text \<open>
  The \<open>flag.Value\<close> implementations bound by the package: the parser's own string, bool and
  int holders and the package's \<open>StringSlice\<close>. A holder lives at an address of the
  memory \<open>mem\<close>; a pointer to it is that address.
\<close>

datatype Value = stringValue string | boolValue bool | intValue int | StringSlice "string list"

text \<open>\<open>interface{}\<close> as stored in a descriptor: a string, or a pointer to a \<open>flag.Value\<close>.\<close>

datatype any = AString string | AValue addr

text \<open>
  \<open>interface{}\<close> as the YAML decoder produces it in a \<open>map[string]interface{}\<close>:
  \<open>YOther\<close> stands for every dynamic type the merge does not look at
  (\<open>nil\<close>, \<open>float64\<close>, nested maps).
\<close>

datatype yaml = YString string | YBool bool | YInt int | YSeq "yaml list" | YOther

record flagData =
  usage :: string
  short :: string
  long :: string
  defaultValue :: any

text \<open>A \<open>*flagData\<close> is the address of a descriptor in the descriptor heap.\<close>

record InsertionOrderedMap =
  keys :: "string list"
  valuesM :: "string \<rightharpoonup> nat"

record FlagSet =
  Marshal :: bool
  description :: string
  flagKeys :: InsertionOrderedMap

text \<open>\<open>flag.Flag\<close> of the standard library; \<open>Value\<close> is the pointer to the bound holder.\<close>

record Flag =
  Name :: string
  Usage :: string
  Value :: addr
  DefValue :: string

text \<open>
  The process state the package works on: \<open>formal\<close> is the flag table of
  \<open>flag.CommandLine\<close>, \<open>mem\<close> holds the bound value holders, \<open>heap\<close> the descriptors
  allocated so far and \<open>brk\<close> the next free descriptor address.
\<close>

record world =
  formal :: "Flag list"
  mem :: "addr \<Rightarrow> Value"
  heap :: "nat \<Rightarrow> flagData"
  brk :: nat

datatype panic = FlagRedefined string | CLIArgumentsEmpty | NilDereference

text \<open>
  Functions of other libraries, and of the part of the package that is not in
  \<open>goflags.go\<close>, whose results the package only passes on. They are parameters of the model:
  \<^item> \<open>structhash\<close>: \<open>structhash.Hash(data, 1)\<close> of a descriptor;
  \<^item> \<open>Sprintf_q\<close>: \<open>fmt.Sprintf("%q", s)\<close> of a string;
  \<^item> \<open>ParseInt\<close>: \<open>strconv.ParseInt(s, 0, strconv.IntSize)\<close>, the value and whether it parsed;
  \<^item> \<open>yaml_Marshal\<close>: \<open>yaml.Marshal\<close> of the collected defaults, \<open>None\<close> on error;
  \<^item> \<open>yaml_Decode\<close>: decoding a document into a \<open>map[string]interface{}\<close>, \<open>None\<close> on error;
  \<^item> \<open>tabwriter\<close>: the text a \<open>tabwriter.Writer\<close> flushes for the cells written to it;
  \<^item> \<open>StringSlice_String\<close>: the \<open>String\<close> method of \<open>StringSlice\<close>;
  \<^item> \<open>ToLower\<close>: \<open>strings.ToLower\<close>, the Unicode lower-case mapping of a string;
  \<^item> \<open>EqualFold\<close>: \<open>strings.EqualFold\<close>, equality under Unicode case folding;
  \<^item> \<open>filepath_Join\<close>: \<open>filepath.Join\<close> of path elements.
\<close>

record extern =
  structhash :: "flagData \<Rightarrow> string"
  Sprintf_q :: "string \<Rightarrow> string"
  ParseInt :: "string \<Rightarrow> int \<times> bool"
  yaml_Marshal :: "(addr \<Rightarrow> Value) \<Rightarrow> (string \<times> any) list \<Rightarrow> string option"
  yaml_Decode :: "string \<Rightarrow> (string \<rightharpoonup> yaml) option"
  tabwriter :: "string \<Rightarrow> string"
  StringSlice_String :: "string list \<Rightarrow> string"
  ToLower :: "string \<Rightarrow> string"
  EqualFold :: "string \<Rightarrow> string \<Rightarrow> bool"
  filepath_Join :: "string list \<Rightarrow> string"


section \<open>Value holders\<close>

definition Value_String :: "extern \<Rightarrow> Value \<Rightarrow> string" where
  "Value_String X v =
     (case v of
        stringValue s \<Rightarrow> s
      | boolValue b \<Rightarrow> FormatBool b
      | intValue i \<Rightarrow> Itoa i
      | StringSlice ss \<Rightarrow> StringSlice_String X ss)"

text \<open>
  Modelled from the spec: \<open>StringSlice.Set\<close> is not in \<open>goflags.go\<close>; slice flags
  accumulate via repeated \<open>Set\<close>, each call appending its argument.

  The parser's own holders follow the standard library: the bool and int holders store the
  parsed value even when parsing fails (\<open>false\<close>, respectively the value \<open>ParseInt\<close>
  returns with its error). The result is the new holder and whether \<open>Set\<close> returned
  \<open>nil\<close>.
\<close>

definition Value_Set :: "extern \<Rightarrow> string \<Rightarrow> Value \<Rightarrow> Value \<times> bool" where
  "Value_Set X s v =
     (case v of
        stringValue _ \<Rightarrow> (stringValue s, True)
      | boolValue _ \<Rightarrow>
          (case ParseBool s of Some b \<Rightarrow> (boolValue b, True) | None \<Rightarrow> (boolValue False, False))
      | intValue _ \<Rightarrow> (intValue (fst (ParseInt X s)), snd (ParseInt X s))
      | StringSlice ss \<Rightarrow> (StringSlice (ss @ [s]), True))"

text \<open>\<open>reflect.New(valueType.Elem())\<close>: a fresh zero holder of the same type.\<close>

definition zeroValue :: "Value \<Rightarrow> Value" where
  "zeroValue v =
     (case v of
        stringValue _ \<Rightarrow> stringValue []
      | boolValue _ \<Rightarrow> boolValue False
      | intValue _ \<Rightarrow> intValue 0
      | StringSlice _ \<Rightarrow> StringSlice [])"

text \<open>\<open>reflect.TypeOf(v).String()\<close> for a pointer to the holder.\<close>

definition typeString :: "Value \<Rightarrow> string" where
  "typeString v =
     (case v of
        stringValue _ \<Rightarrow> ''*flag.stringValue''
      | boolValue _ \<Rightarrow> ''*flag.boolValue''
      | intValue _ \<Rightarrow> ''*flag.intValue''
      | StringSlice _ \<Rightarrow> ''*goflags.StringSlice'')"


section \<open>The flag table of the standard library\<close>

definition Lookup :: "Flag list \<Rightarrow> string \<Rightarrow> Flag option" where
  "Lookup fl name = find (\<lambda>f. Name f = name) fl"

text \<open>
  \<open>flag.Var\<close>: the default string is the holder's \<open>String()\<close> at registration; a name
  already in the table panics.
\<close>

definition flag_Var :: "extern \<Rightarrow> addr \<Rightarrow> string \<Rightarrow> string \<Rightarrow> world \<Rightarrow> panic + world" where
  "flag_Var X p name u w =
     (case Lookup (formal w) name of
        Some _ \<Rightarrow> Inl (FlagRedefined name)
      | None \<Rightarrow>
          Inr (w\<lparr>formal := formal w @
                 [\<lparr>Name = name, Usage = u, Value = p, DefValue = Value_String X (mem w p)\<rparr>]\<rparr>))"

text \<open>\<open>flag.StringVar\<close>, \<open>flag.BoolVar\<close>, \<open>flag.IntVar\<close>: store the default, then \<open>Var\<close>.\<close>

definition flag_StringVar :: "extern \<Rightarrow> addr \<Rightarrow> string \<Rightarrow> string \<Rightarrow> string \<Rightarrow> world \<Rightarrow> panic + world" where
  "flag_StringVar X p name v u w = flag_Var X p name u (w\<lparr>mem := (mem w)(p := stringValue v)\<rparr>)"

definition flag_BoolVar :: "extern \<Rightarrow> addr \<Rightarrow> string \<Rightarrow> bool \<Rightarrow> string \<Rightarrow> world \<Rightarrow> panic + world" where
  "flag_BoolVar X p name v u w = flag_Var X p name u (w\<lparr>mem := (mem w)(p := boolValue v)\<rparr>)"

definition flag_IntVar :: "extern \<Rightarrow> addr \<Rightarrow> string \<Rightarrow> int \<Rightarrow> string \<Rightarrow> world \<Rightarrow> panic + world" where
  "flag_IntVar X p name v u w = flag_Var X p name u (w\<lparr>mem := (mem w)(p := intValue v)\<rparr>)"

text \<open>\<open>flag.Set(name, value)\<close>: what the parser does for \<open>-name value\<close>.\<close>

definition flag_Set :: "extern \<Rightarrow> string \<Rightarrow> string \<Rightarrow> world \<Rightarrow> world option" where
  "flag_Set X name s w =
     (case Lookup (formal w) name of
        None \<Rightarrow> None
      | Some f \<Rightarrow> Some (w\<lparr>mem := (mem w)(Value f := fst (Value_Set X s (mem w (Value f))))\<rparr>))"

text \<open>\<open>VisitAll\<close> visits the flags in lexicographical order of their names.\<close>

definition VisitAll :: "Flag list \<Rightarrow> (Flag \<Rightarrow> 's \<Rightarrow> 's) \<Rightarrow> 's \<Rightarrow> 's" where
  "VisitAll fl fn s = fold fn (sort_key Name fl) s"


section \<open>The insertion-ordered map\<close>

definition newInsertionOrderedMap :: InsertionOrderedMap where
  "newInsertionOrderedMap = \<lparr>keys = [], valuesM = Map.empty\<rparr>"

definition NewFlagSet :: FlagSet where
  "NewFlagSet = \<lparr>Marshal = False, description = [], flagKeys = newInsertionOrderedMap\<rparr>"

text \<open>
  Modelled from the spec: \<open>InsertionOrderedMap.Set\<close> is not in \<open>goflags.go\<close>;
  \<open>Set(key, descriptor)\<close> inserts or overwrites, and if \<open>key\<close> is new, appends it to the
  order sequence.
\<close>

definition IOM_Set :: "string \<Rightarrow> nat \<Rightarrow> InsertionOrderedMap \<Rightarrow> InsertionOrderedMap" where
  "IOM_Set key d m =
     \<lparr>keys = (if valuesM m key = None then keys m @ [key] else keys m),
      valuesM = (valuesM m)(key \<mapsto> d)\<rparr>"

text \<open>
  Modelled from the spec: \<open>InsertionOrderedMap.forEach\<close> is not in \<open>goflags.go\<close>;
  \<open>ForEach(visit)\<close> invokes \<open>visit(key, descriptor)\<close> for every key in insertion order,
  including duplicate descriptors under different keys. The visitor's effect is a state
  transformer.
\<close>

definition forEach :: "InsertionOrderedMap \<Rightarrow> (string \<Rightarrow> nat \<Rightarrow> 's \<Rightarrow> 's) \<Rightarrow> 's \<Rightarrow> 's" where
  "forEach m fn s =
     fold (\<lambda>key s. case valuesM m key of Some d \<Rightarrow> fn key d s | None \<Rightarrow> s) (keys m) s"

definition flagKeys_Set :: "string \<Rightarrow> nat \<Rightarrow> FlagSet \<Rightarrow> FlagSet" where
  "flagKeys_Set key d fs = fs\<lparr>flagKeys := IOM_Set key d (flagKeys fs)\<rparr>"

text \<open>\<open>&flagData{...}\<close>: allocate a descriptor, returning its address.\<close>

definition new_flagData :: "flagData \<Rightarrow> world \<Rightarrow> nat \<times> world" where
  "new_flagData d w = (brk w, w\<lparr>heap := (heap w)(brk w := d), brk := Suc (brk w)\<rparr>)"


section \<open>Registration\<close>

text \<open>A \<open>*StringSlice\<close> argument points to a slice holder; its elements:\<close>

definition sliceOf :: "Value \<Rightarrow> string list" where
  "sliceOf v = (case v of StringSlice ss \<Rightarrow> ss | _ \<Rightarrow> [])"

definition createStringArrayDefaultValue :: "string list \<Rightarrow> string" where
  "createStringArrayDefaultValue stringSlice =
     ''['' @
     concat (map (\<lambda>(i, k). [DQ] @ k @ [DQ] @ (if i \<noteq> length stringSlice - 1 then '', '' else []))
                 (enumerate 0 stringSlice)) @
     '']''"

definition insertBoth :: "string \<Rightarrow> string \<Rightarrow> flagData \<Rightarrow> FlagSet \<times> world \<Rightarrow> FlagSet \<times> world" where
  "insertBoth shortN longN data = (\<lambda>(fs, w).
     let (d, w') = new_flagData data w
     in (flagKeys_Set longN d (flagKeys_Set shortN d fs), w'))"

definition insertLong :: "string \<Rightarrow> flagData \<Rightarrow> FlagSet \<times> world \<Rightarrow> FlagSet \<times> world" where
  "insertLong longN data = (\<lambda>(fs, w).
     let (d, w') = new_flagData data w
     in (flagKeys_Set longN d fs, w'))"

definition VarP :: "extern \<Rightarrow> addr \<Rightarrow> string \<Rightarrow> string \<Rightarrow> string \<Rightarrow> FlagSet \<times> world \<Rightarrow> panic + FlagSet \<times> world" where
  "VarP X field longN shortN usageS = (\<lambda>(fs, w).
     case flag_Var X field shortN usageS w of Inl e \<Rightarrow> Inl e | Inr w1 \<Rightarrow>
     case flag_Var X field longN usageS w1 of Inl e \<Rightarrow> Inl e | Inr w2 \<Rightarrow>
     Inr (insertBoth shortN longN
            \<lparr>usage = usageS, short = shortN, long = longN, defaultValue = AValue field\<rparr> (fs, w2)))"

definition Var :: "extern \<Rightarrow> addr \<Rightarrow> string \<Rightarrow> string \<Rightarrow> FlagSet \<times> world \<Rightarrow> panic + FlagSet \<times> world" where
  "Var X field longN usageS = (\<lambda>(fs, w).
     case flag_Var X field longN usageS w of Inl e \<Rightarrow> Inl e | Inr w1 \<Rightarrow>
     Inr (insertLong longN
            \<lparr>usage = usageS, short = [], long = longN, defaultValue = AValue field\<rparr> (fs, w1)))"

definition StringVarP :: "extern \<Rightarrow> addr \<Rightarrow> string \<Rightarrow> string \<Rightarrow> string \<Rightarrow> string \<Rightarrow> FlagSet \<times> world \<Rightarrow> panic + FlagSet \<times> world" where
  "StringVarP X field longN shortN dflt usageS = (\<lambda>(fs, w).
     case flag_StringVar X field shortN dflt usageS w of Inl e \<Rightarrow> Inl e | Inr w1 \<Rightarrow>
     case flag_StringVar X field longN dflt usageS w1 of Inl e \<Rightarrow> Inl e | Inr w2 \<Rightarrow>
     Inr (insertBoth shortN longN
            \<lparr>usage = usageS, short = shortN, long = longN, defaultValue = AString dflt\<rparr> (fs, w2)))"

text \<open>\<open>StringVarEnv\<close>: \<open>env\<close> is the process environment read by \<open>os.LookupEnv\<close>.\<close>

definition StringVarEnv :: "extern \<Rightarrow> (string \<rightharpoonup> string) \<Rightarrow> addr \<Rightarrow> string \<Rightarrow> string \<Rightarrow> string \<Rightarrow> string \<Rightarrow> string \<Rightarrow> FlagSet \<times> world \<Rightarrow> panic + FlagSet \<times> world" where
  "StringVarEnv X env field longN shortN dflt envName usageS =
     StringVarP X field longN shortN
       (case env envName of Some envValue \<Rightarrow> envValue | None \<Rightarrow> dflt) usageS"

definition StringVar :: "extern \<Rightarrow> addr \<Rightarrow> string \<Rightarrow> string \<Rightarrow> string \<Rightarrow> FlagSet \<times> world \<Rightarrow> panic + FlagSet \<times> world" where
  "StringVar X field longN dflt usageS = (\<lambda>(fs, w).
     case flag_StringVar X field longN dflt usageS w of Inl e \<Rightarrow> Inl e | Inr w1 \<Rightarrow>
     Inr (insertLong longN
            \<lparr>usage = usageS, short = [], long = longN, defaultValue = AString dflt\<rparr> (fs, w1)))"

definition BoolVarP :: "extern \<Rightarrow> addr \<Rightarrow> string \<Rightarrow> string \<Rightarrow> bool \<Rightarrow> string \<Rightarrow> FlagSet \<times> world \<Rightarrow> panic + FlagSet \<times> world" where
  "BoolVarP X field longN shortN dflt usageS = (\<lambda>(fs, w).
     case flag_BoolVar X field shortN dflt usageS w of Inl e \<Rightarrow> Inl e | Inr w1 \<Rightarrow>
     case flag_BoolVar X field longN dflt usageS w1 of Inl e \<Rightarrow> Inl e | Inr w2 \<Rightarrow>
     Inr (insertBoth shortN longN
            \<lparr>usage = usageS, short = shortN, long = longN, defaultValue = AString (FormatBool dflt)\<rparr>
            (fs, w2)))"

definition BoolVar :: "extern \<Rightarrow> addr \<Rightarrow> string \<Rightarrow> bool \<Rightarrow> string \<Rightarrow> FlagSet \<times> world \<Rightarrow> panic + FlagSet \<times> world" where
  "BoolVar X field longN dflt usageS = (\<lambda>(fs, w).
     case flag_BoolVar X field longN dflt usageS w of Inl e \<Rightarrow> Inl e | Inr w1 \<Rightarrow>
     Inr (insertLong longN
            \<lparr>usage = usageS, short = [], long = longN, defaultValue = AString (FormatBool dflt)\<rparr>
            (fs, w1)))"

definition IntVarP :: "extern \<Rightarrow> addr \<Rightarrow> string \<Rightarrow> string \<Rightarrow> int \<Rightarrow> string \<Rightarrow> FlagSet \<times> world \<Rightarrow> panic + FlagSet \<times> world" where
  "IntVarP X field longN shortN dflt usageS = (\<lambda>(fs, w).
     case flag_IntVar X field shortN dflt usageS w of Inl e \<Rightarrow> Inl e | Inr w1 \<Rightarrow>
     case flag_IntVar X field longN dflt usageS w1 of Inl e \<Rightarrow> Inl e | Inr w2 \<Rightarrow>
     Inr (insertBoth shortN longN
            \<lparr>usage = usageS, short = shortN, long = longN, defaultValue = AString (Itoa dflt)\<rparr>
            (fs, w2)))"

definition IntVar :: "extern \<Rightarrow> addr \<Rightarrow> string \<Rightarrow> int \<Rightarrow> string \<Rightarrow> FlagSet \<times> world \<Rightarrow> panic + FlagSet \<times> world" where
  "IntVar X field longN dflt usageS = (\<lambda>(fs, w).
     case flag_IntVar X field longN dflt usageS w of Inl e \<Rightarrow> Inl e | Inr w1 \<Rightarrow>
     Inr (insertLong longN
            \<lparr>usage = usageS, short = [], long = longN, defaultValue = AString (Itoa dflt)\<rparr>
            (fs, w1)))"

text \<open>The loop \<open>for _, item := range defaultValue { _ = field.Set(item) }\<close>.\<close>

definition setDefaults :: "extern \<Rightarrow> addr \<Rightarrow> string list \<Rightarrow> world \<Rightarrow> world" where
  "setDefaults X field dflt w =
     w\<lparr>mem := (mem w)(field := fold (\<lambda>item v. fst (Value_Set X item v)) dflt (mem w field))\<rparr>"

definition StringSliceVarP :: "extern \<Rightarrow> addr \<Rightarrow> string \<Rightarrow> string \<Rightarrow> string list \<Rightarrow> string \<Rightarrow> FlagSet \<times> world \<Rightarrow> panic + FlagSet \<times> world" where
  "StringSliceVarP X field longN shortN dflt usageS = (\<lambda>(fs, w).
     let w0 = setDefaults X field dflt w in
     case flag_Var X field shortN usageS w0 of Inl e \<Rightarrow> Inl e | Inr w1 \<Rightarrow>
     case flag_Var X field longN usageS w1 of Inl e \<Rightarrow> Inl e | Inr w2 \<Rightarrow>
     Inr (insertBoth shortN longN
            \<lparr>usage = usageS, short = shortN, long = longN,
             defaultValue = AString (createStringArrayDefaultValue (sliceOf (mem w2 field)))\<rparr>
            (fs, w2)))"

definition StringSliceVar :: "extern \<Rightarrow> addr \<Rightarrow> string \<Rightarrow> string list \<Rightarrow> string \<Rightarrow> FlagSet \<times> world \<Rightarrow> panic + FlagSet \<times> world" where
  "StringSliceVar X field longN dflt usageS = (\<lambda>(fs, w).
     let w0 = setDefaults X field dflt w in
     case flag_Var X field longN usageS w0 of Inl e \<Rightarrow> Inl e | Inr w1 \<Rightarrow>
     Inr (insertLong longN
            \<lparr>usage = usageS, short = [], long = longN,
             defaultValue = AString (createStringArrayDefaultValue (sliceOf (mem w1 field)))\<rparr>
            (fs, w1)))"


section \<open>Synthesising the default configuration\<close>

definition configHeader :: "string \<Rightarrow> string" where
  "configHeader arg0 =
     ''# '' @ path_Base arg0 @
     '' config file\<newline># generated by https://github.com/projectdiscovery/goflags\<newline>\<newline>''"

text \<open>
  The type switch on \<open>data.defaultValue\<close>: a string is written as it is, a
  \<open>flag.Value\<close> through its \<open>String()\<close>.
\<close>

definition defaultText :: "extern \<Rightarrow> world \<Rightarrow> any \<Rightarrow> string" where
  "defaultText X w dv = (case dv of AString s \<Rightarrow> s | AValue p \<Rightarrow> Value_String X (mem w p))"

text \<open>
  The visitor of the second \<open>forEach\<close> of \<open>generateDefaultConfig\<close>; its state is the
  set of hashes seen and the buffer.
\<close>

definition configVisitor :: "extern \<Rightarrow> world \<Rightarrow> string \<Rightarrow> nat \<Rightarrow> string set \<times> string \<Rightarrow> string set \<times> string" where
  "configVisitor X w key d = (\<lambda>(hashes, configBuffer).
     let data = heap w d; dataHash = structhash X data
     in if dataHash \<in> hashes then (hashes, configBuffer)
        else (insert dataHash hashes,
              configBuffer @ ''# '' @ ToLower X (usage data) @ [LF] @
              ''#'' @ long data @ '': '' @ defaultText X w (defaultValue data) @ [LF, LF]))"

text \<open>The visitor of the first \<open>forEach\<close>: \<open>flagsToMarshall[key] = data.defaultValue\<close>.\<close>

definition marshalVisitor :: "world \<Rightarrow> string \<Rightarrow> nat \<Rightarrow> (string \<times> any) list \<Rightarrow> (string \<times> any) list" where
  "marshalVisitor w key d flagsToMarshall =
     AList.update key (defaultValue (heap w d)) flagsToMarshall"

definition generateDefaultConfig :: "extern \<Rightarrow> string \<Rightarrow> FlagSet \<Rightarrow> world \<Rightarrow> string" where
  "generateDefaultConfig X arg0 flagSet w =
     (let configBuffer = configHeader arg0;
          commented = TrimSuffix (snd (forEach (flagKeys flagSet) (configVisitor X w) ({}, configBuffer)))
                                 [LF, LF]
      in if Marshal flagSet
         then (case yaml_Marshal X (mem w) (forEach (flagKeys flagSet) (marshalVisitor w) []) of
                 Some flagSetBytes \<Rightarrow> configBuffer @ flagSetBytes
               | None \<Rightarrow> commented)
         else commented)"


section \<open>Merging a configuration file\<close>

text \<open>
  The errors the package returns: the two wrapped ones of \<open>readConfigFile\<close>, and those
  of \<open>os.UserHomeDir\<close> and \<open>ioutil.WriteFile\<close> that \<open>Parse\<close> passes on.
\<close>

datatype error = CouldNotOpen | CouldNotUnmarshal | HomeDirError | WriteFileError

text \<open>The type switch on the document's value, with the results of \<open>Set\<close> dropped.\<close>

definition setFromItem :: "extern \<Rightarrow> yaml \<Rightarrow> Value \<Rightarrow> Value" where
  "setFromItem X item v =
     (case item of
        YString s \<Rightarrow> fst (Value_Set X s v)
      | YBool b \<Rightarrow> fst (Value_Set X (FormatBool b) v)
      | YInt i \<Rightarrow> fst (Value_Set X (Itoa i) v)
      | YSeq vs \<Rightarrow>
          fold (\<lambda>x v. case x of YString vStr \<Rightarrow> fst (Value_Set X vStr v) | _ \<Rightarrow> v) vs v
      | YOther \<Rightarrow> v)"

text \<open>The function passed to \<open>VisitAll\<close>; its state is the memory of the holders.\<close>

definition mergeVisitor :: "extern \<Rightarrow> (string \<rightharpoonup> yaml) \<Rightarrow> Flag \<Rightarrow> (addr \<Rightarrow> Value) \<Rightarrow> (addr \<Rightarrow> Value)" where
  "mergeVisitor X data fl m =
     (let item = data (Name fl); ok = (item \<noteq> None);
          val = Value_String X (m (Value fl))
      in if EqualFold X (DefValue fl) val \<and> ok
         then m(Value fl := setFromItem X (the item) (m (Value fl)))
         else m)"

text \<open>
  \<open>readConfigFile\<close>: \<open>file\<close> is the content of the file at \<open>filePath\<close>, \<open>None\<close> when
  it cannot be opened.
\<close>

definition readConfigFile :: "extern \<Rightarrow> string option \<Rightarrow> world \<Rightarrow> error option \<times> world" where
  "readConfigFile X file w =
     (case file of
        None \<Rightarrow> (Some CouldNotOpen, w)
      | Some content \<Rightarrow>
          (case yaml_Decode X content of
             None \<Rightarrow> (Some CouldNotUnmarshal, w)
           | Some data \<Rightarrow> (None, w\<lparr>mem := VisitAll (formal w) (mergeVisitor X data) (mem w)\<rparr>)))"

definition MergeConfigFile :: "extern \<Rightarrow> string option \<Rightarrow> world \<Rightarrow> error option \<times> world" where
  "MergeConfigFile X file w = readConfigFile X file w"


section \<open>Rendering the usage\<close>

definition isZeroValue :: "extern \<Rightarrow> world \<Rightarrow> Flag \<Rightarrow> string \<Rightarrow> bool" where
  "isZeroValue X w f val = (val = Value_String X (zeroValue (mem w (Value f))))"

text \<open>
  \<open>fmt.Sprintf\<close> of one \<open>interface{}\<close> operand with \<open>%q\<close> or \<open>%v\<close>; a
  \<open>flag.Value\<close> is a \<open>Stringer\<close> and is formatted through \<open>String()\<close>.
\<close>

definition Sprintf_any :: "extern \<Rightarrow> world \<Rightarrow> bool \<Rightarrow> any \<Rightarrow> string" where
  "Sprintf_any X w quoted dv =
     (if quoted then Sprintf_q X (defaultText X w dv) else defaultText X w dv)"

definition createUsageDefaultValue :: "extern \<Rightarrow> world \<Rightarrow> flagData \<Rightarrow> Flag \<Rightarrow> string" where
  "createUsageDefaultValue X w data currentFlag =
     (if \<not> isZeroValue X w currentFlag (DefValue currentFlag)
      then '' (default '' @
           Sprintf_any X w (typeString (mem w (Value currentFlag)) = ''*flag.stringValue'')
             (defaultValue data) @
           '')''
      else [])"

text \<open>
  \<open>flag.UnquoteUsage\<close>: a back-quoted name in the usage string, else a name for the
  holder's type.
\<close>

definition UnquoteUsage :: "Value \<Rightarrow> string \<Rightarrow> string \<times> string" where
  "UnquoteUsage v u =
     (let typeName = (case v of stringValue _ \<Rightarrow> ''string'' | boolValue _ \<Rightarrow> []
                      | intValue _ \<Rightarrow> ''int'' | StringSlice _ \<Rightarrow> ''value'');
          pre = takeWhile (\<lambda>c. c \<noteq> BQ) u;
          rest = drop (Suc (length pre)) u
      in if length pre < length u \<and> BQ \<in> set rest
         then let name = takeWhile (\<lambda>c. c \<noteq> BQ) rest
              in (name, pre @ name @ drop (Suc (length name)) rest)
         else (typeName, u))"

definition createUsageTypeAndDescription :: "world \<Rightarrow> Flag \<Rightarrow> string" where
  "createUsageTypeAndDescription w currentFlag =
     (let v = mem w (Value currentFlag);
          (flagDisplayType, usageS) = UnquoteUsage v (Usage currentFlag);
          result =
            (if length flagDisplayType > 0
             then '' '' @ (if flagDisplayType = ''value''
                           then (case v of StringSlice _ \<Rightarrow> ''string[]'' | _ \<Rightarrow> flagDisplayType)
                           else flagDisplayType)
             else [])
      in result @ [TAB, TAB] @ ReplaceAll_LF usageS ([LF] @ replicate 4 (CHR '' '') @ [TAB]))"

definition addValidParam :: "string \<Rightarrow> string list \<Rightarrow> string list" where
  "addValidParam val validFlags =
     (if isNotBlank val then validFlags @ [''-'' @ val] else validFlags)"

definition createUsageFlagNames :: "flagData \<Rightarrow> panic + string" where
  "createUsageFlagNames data =
     (let flagNames = replicate 2 (CHR '' '') @ [TAB];
          validFlags = addValidParam (long data) (addValidParam (short data) [])
      in if length validFlags = 0 then Inl CLIArgumentsEmpty
         else Inr (flagNames @ Join validFlags '', ''))"

text \<open>
  \<open>currentFlag\<close> is the result of \<open>flag.CommandLine.Lookup(key)\<close>, \<open>None\<close> for
  \<open>nil\<close>, which \<open>currentFlag.Value\<close> dereferences.
\<close>

definition createUsageString :: "extern \<Rightarrow> world \<Rightarrow> flagData \<Rightarrow> Flag option \<Rightarrow> panic + string" where
  "createUsageString X w data currentFlag =
     (case currentFlag of
        None \<Rightarrow> Inl NilDereference
      | Some f \<Rightarrow>
          (case createUsageFlagNames data of
             Inl e \<Rightarrow> Inl e
           | Inr names \<Rightarrow>
               Inr (names @ createUsageTypeAndDescription w f @ createUsageDefaultValue X w data f)))"

text \<open>
  The visitor of \<open>usageFunc\<close>; its state is the set of hashes seen and the text written to
  the tab writer, or the panic that ended the rendering.
\<close>

definition usageVisitor :: "extern \<Rightarrow> world \<Rightarrow> string \<Rightarrow> nat \<Rightarrow> panic + string set \<times> string \<Rightarrow> panic + string set \<times> string" where
  "usageVisitor X w key d st =
     (case st of
        Inl e \<Rightarrow> Inl e
      | Inr (hashes, written) \<Rightarrow>
          let currentFlag = Lookup (formal w) key; data = heap w d; dataHash = structhash X data
          in if dataHash \<in> hashes then Inr (hashes, written)
             else (case createUsageString X w data currentFlag of
                     Inl e \<Rightarrow> Inl e
                   | Inr result \<Rightarrow> Inr (insert dataHash hashes, written @ result @ [LF])))"

definition usageHeader :: "string \<Rightarrow> FlagSet \<Rightarrow> string" where
  "usageHeader arg0 flagSet =
     description flagSet @ [LF, LF] @
     ''Usage:'' @ [LF] @ ''  '' @ arg0 @ '' [flags]'' @ [LF, LF] @
     ''Flags:'' @ [LF]"

text \<open>\<open>usageFunc\<close>: the text printed to the parser's output, or the panic.\<close>

definition usageFunc :: "extern \<Rightarrow> string \<Rightarrow> FlagSet \<Rightarrow> world \<Rightarrow> panic + string" where
  "usageFunc X arg0 flagSet w =
     (case forEach (flagKeys flagSet) (usageVisitor X w) (Inr ({}, [])) of
        Inl e \<Rightarrow> Inl e
      | Inr (hashes, written) \<Rightarrow> Inr (usageHeader arg0 flagSet @ tabwriter X written))"


section \<open>Parsing the command line\<close>

text \<open>
  The operating system as \<open>Parse\<close> meets it: \<open>os.Args[0]\<close>, the result of
  \<open>os.UserHomeDir\<close> (\<open>None\<close> for its error), whether \<open>os.Stat\<close> reports a path
  as not existing, the content \<open>os.Open\<close> gives for a path (\<open>None\<close> when it cannot
  be opened) and whether \<open>ioutil.WriteFile\<close> of a content to a path succeeds.
\<close>

record os =
  Args0 :: string
  UserHomeDir :: "string option"
  notExist :: "string \<Rightarrow> bool"
  Open :: "string \<Rightarrow> string option"
  WriteFile :: "string \<Rightarrow> string \<Rightarrow> bool"

text \<open>
  What \<open>flag.Parse()\<close> did with the command line of the process. Either the parser
  consumed the arguments and returned, leaving the process in a state; or it met a help
  request (\<open>-h\<close> or \<open>-help\<close> with no such flag defined) or an error: it then calls
  \<open>flag.CommandLine.Usage\<close> in the state reached and, once that call has returned, ends
  the process by \<open>os.Exit\<close> with a status, the error handling of
  \<open>flag.CommandLine\<close> being \<open>ExitOnError\<close>.
\<close>

datatype parser_run = Parsed world | UsageAndExit world nat

text \<open>
  How a call of \<open>Parse\<close> ends. It returns its \<open>error\<close> result (\<open>None\<close> for
  \<open>nil\<close>) with the state of the process and the file it has written, if any; or a panic
  leaves it, the package having no \<open>recover\<close>; or the parser has ended the process with
  a status after the usage was printed.
\<close>

datatype outcome =
    Returned "error option" world "(string \<times> string) option"
  | Panicked panic
  | Exited nat string

text \<open>
  \<open>filepath.Ext\<close>: the suffix of the last path element that begins at its final dot.
\<close>

definition filepath_Ext :: "string \<Rightarrow> string" where
  "filepath_Ext p =
     (let e = takeWhile (\<lambda>c. c \<noteq> CHR ''/'') (rev p)
      in if CHR ''.'' \<in> set e then CHR ''.'' # rev (takeWhile (\<lambda>c. c \<noteq> CHR ''.'') e) else [])"

text \<open>
  \<open>Parse\<close>, with \<open>run\<close> the course of its call \<open>flag.Parse()\<close>, during which
  the parser calls \<open>usageFunc\<close>, installed as \<open>flag.CommandLine.Usage\<close> just before.
  The result of \<open>os.MkdirAll\<close> and the error of \<open>MergeConfigFile\<close> are dropped, as
  in the source.
\<close>

definition Parse :: "extern \<Rightarrow> os \<Rightarrow> parser_run \<Rightarrow> FlagSet \<Rightarrow> outcome" where
  "Parse X sys run flagSet =
     (case run of
        UsageAndExit w status \<Rightarrow>
          (case usageFunc X (Args0 sys) flagSet w of
             Inl p \<Rightarrow> Panicked p
           | Inr printed \<Rightarrow> Exited status printed)
      | Parsed w \<Rightarrow>
          (let appName = path_Base (Args0 sys);
               appName = TrimSuffix appName (filepath_Ext appName)
           in case UserHomeDir sys of
                None \<Rightarrow> Returned (Some HomeDirError) w None
              | Some homePath \<Rightarrow>
                  (let config = filepath_Join X [homePath, ''.config'', appName, ''config.yaml'']
                   in if notExist sys config
                      then (let configData = generateDefaultConfig X (Args0 sys) flagSet w
                            in if WriteFile sys config configData
                               then Returned None w (Some (config, configData))
                               else Returned (Some WriteFileError) w None)
                      else Returned None (snd (MergeConfigFile X (Open sys config) w)) None)))"


section \<open>What the two renderers emit\<close>

text \<open>The key and descriptor address of every visit of \<open>forEach\<close>, in order.\<close>

definition entries :: "InsertionOrderedMap \<Rightarrow> (string \<times> nat) list" where
  "entries m = List.map_filter (\<lambda>key. map_option (Pair key) (valuesM m key)) (keys m)"

text \<open>
  What is left of a visiting sequence when every element whose hash is among those seen is
  skipped and the hash of every other element is added to those seen.
\<close>

fun firstByHash :: "('a \<Rightarrow> 'h) \<Rightarrow> 'h set \<Rightarrow> 'a list \<Rightarrow> 'a list" where
  "firstByHash h seen [] = []"
| "firstByHash h seen (x # xs) =
     (if h x \<in> seen then firstByHash h seen xs
      else x # firstByHash h (insert (h x) seen) xs)"

definition entryHash :: "extern \<Rightarrow> world \<Rightarrow> string \<times> nat \<Rightarrow> string" where
  "entryHash X w e = structhash X (heap w (snd e))"

definition uniqueFlags :: "extern \<Rightarrow> FlagSet \<Rightarrow> world \<Rightarrow> (string \<times> nat) list" where
  "uniqueFlags X fs w = firstByHash (entryHash X w) {} (entries (flagKeys fs))"

text \<open>The text of one flag in the commented document.\<close>

definition configEntry :: "extern \<Rightarrow> world \<Rightarrow> flagData \<Rightarrow> string" where
  "configEntry X w data =
     ''# '' @ ToLower X (usage data) @ [LF] @
     ''#'' @ long data @ '': '' @ defaultText X w (defaultValue data) @ [LF, LF]"

text \<open>The line of one flag in the usage, as written to the tab writer.\<close>

definition usageLine :: "extern \<Rightarrow> world \<Rightarrow> string \<times> nat \<Rightarrow> panic + string" where
  "usageLine X w e =
     (case createUsageString X w (heap w (snd e)) (Lookup (formal w) (fst e)) of
        Inl p \<Rightarrow> Inl p
      | Inr result \<Rightarrow> Inr (result @ [LF]))"

text \<open>Running a fallible function over a list, stopping at the first failure.\<close>

fun traverse :: "('a \<Rightarrow> 'e + 'b) \<Rightarrow> 'a list \<Rightarrow> 'e + 'b list" where
  "traverse f [] = Inr []"
| "traverse f (x # xs) =
     (case f x of
        Inl e \<Rightarrow> Inl e
      | Inr y \<Rightarrow> (case traverse f xs of Inl e \<Rightarrow> Inl e | Inr ys \<Rightarrow> Inr (y # ys)))"


section \<open>Example inputs\<close>

text \<open>
  Lower-casing the letters \<open>A\<close> to \<open>Z\<close> and comparing strings up to that: what
  \<open>strings.ToLower\<close> and \<open>strings.EqualFold\<close> compute on strings of ASCII bytes,
  which is what the examples hold.
\<close>

definition lowerc :: "char \<Rightarrow> char" where
  "lowerc c =
     (if CHR ''A'' \<le> c \<and> c \<le> CHR ''Z''
      then (case c of Char b0 b1 b2 b3 b4 b5 b6 b7 \<Rightarrow> Char b0 b1 b2 b3 b4 True b6 b7)
      else c)"

definition ToLower_ascii :: "string \<Rightarrow> string" where
  "ToLower_ascii s = map lowerc s"

definition EqualFold_ascii :: "string \<Rightarrow> string \<Rightarrow> bool" where
  "EqualFold_ascii s t = (map lowerc s = map lowerc t)"

text \<open>
  A concrete choice of the external functions on which the model can be evaluated: the hash
  is the descriptor's long name, \<open>%q\<close> puts its operand between double quotes,
  \<open>ParseInt\<close> and both YAML functions fail, the tab writer copies its input, a slice
  prints as its bracketed list, the case mappings are the ASCII ones, and path elements are
  joined by slashes.
\<close>

definition X0 :: extern where
  "X0 = \<lparr>structhash = (\<lambda>d. long d), Sprintf_q = (\<lambda>s. [DQ] @ s @ [DQ]),
         ParseInt = (\<lambda>s. (0, False)), yaml_Marshal = (\<lambda>m kv. None), yaml_Decode = (\<lambda>s. None),
         tabwriter = (\<lambda>s. s), StringSlice_String = createStringArrayDefaultValue,
         ToLower = ToLower_ascii, EqualFold = EqualFold_ascii,
         filepath_Join = (\<lambda>elems. Join elems ''/'')\<rparr>"

text \<open>A process with no flag registered, every holder an empty slice.\<close>

definition w0 :: world where
  "w0 = \<lparr>formal = [], mem = (\<lambda>_. StringSlice []),
         heap = (\<lambda>_. \<lparr>usage = [], short = [], long = [], defaultValue = AString []\<rparr>), brk = 0\<rparr>"



text \<open>
  The registry and the process after the single registration
  \<open>StringVarP(&name, "name", "n", "anon", "User Name")\<close>, written out.
\<close>

definition fs1 :: FlagSet where
  "fs1 = \<lparr>Marshal = False, description = [],
          flagKeys = \<lparr>keys = [''n'', ''name''], valuesM = [''n'' \<mapsto> 0, ''name'' \<mapsto> 0]\<rparr>\<rparr>"

definition w1 :: world where
  "w1 = \<lparr>formal = [\<lparr>Name = ''n'', Usage = ''User Name'', Value = 0, DefValue = ''anon''\<rparr>,
                   \<lparr>Name = ''name'', Usage = ''User Name'', Value = 0, DefValue = ''anon''\<rparr>],
         mem = (\<lambda>_. StringSlice [])(0 := stringValue ''anon''),
         heap = (\<lambda>_. \<lparr>usage = [], short = [], long = [], defaultValue = AString []\<rparr>)
                  (0 := \<lparr>usage = ''User Name'', short = ''n'', long = ''name'',
                         defaultValue = AString ''anon''\<rparr>),
         brk = 1\<rparr>"


text \<open>
  The registry and the process after the single registration
  \<open>StringVar(&out, "", "d", "u")\<close>, whose only name is empty.
\<close>

definition fsB :: FlagSet where
  "fsB = \<lparr>Marshal = False, description = [],
          flagKeys = \<lparr>keys = [[]], valuesM = [[] \<mapsto> 0]\<rparr>\<rparr>"

definition wB :: world where
  "wB = \<lparr>formal = [\<lparr>Name = [], Usage = ''u'', Value = 0, DefValue = ''d''\<rparr>],
         mem = (\<lambda>_. StringSlice [])(0 := stringValue ''d''),
         heap = (\<lambda>_. \<lparr>usage = [], short = [], long = [], defaultValue = AString []\<rparr>)
                  (0 := \<lparr>usage = ''u'', short = [], long = [], defaultValue = AString ''d''\<rparr>),
         brk = 1\<rparr>"

text \<open>
  The registry and the process after the single registration
  \<open>StringVar(&out, nbsp, "d", "u")\<close>, whose only name \<open>nbsp\<close> is the no-break
  space U+00A0.
\<close>

definition fsN :: FlagSet where
  "fsN = \<lparr>Marshal = False, description = [],
          flagKeys = \<lparr>keys = [[CHR 0xC2, CHR 0xA0]], valuesM = [[CHR 0xC2, CHR 0xA0] \<mapsto> 0]\<rparr>\<rparr>"

definition wN :: world where
  "wN = \<lparr>formal = [\<lparr>Name = [CHR 0xC2, CHR 0xA0], Usage = ''u'', Value = 0, DefValue = ''d''\<rparr>],
         mem = (\<lambda>_. StringSlice [])(0 := stringValue ''d''),
         heap = (\<lambda>_. \<lparr>usage = [], short = [], long = [], defaultValue = AString []\<rparr>)
                  (0 := \<lparr>usage = ''u'', short = [], long = [CHR 0xC2, CHR 0xA0],
                         defaultValue = AString ''d''\<rparr>),
         brk = 1\<rparr>"

text \<open>
  A system where the program is \<open>/usr/bin/app\<close>, the home directory is \<open>/home/u\<close>
  and no file exists.
\<close>

definition sys0 :: os where
  "sys0 = \<lparr>Args0 = ''/usr/bin/app'', UserHomeDir = Some ''/home/u'', notExist = (\<lambda>_. True),
           Open = (\<lambda>_. None), WriteFile = (\<lambda>_ _. True)\<rparr>"

text \<open>The process of the first example after the command line \<open>-n ""\<close>.\<close>

definition w1e :: world where
  "w1e = w1\<lparr>mem := (mem w1)(0 := stringValue [])\<rparr>"


text \<open>
  The registrations under a short and a long name, as data, so that a statement can range
  over all of them; \<open>register\<close> calls the function of the package.
\<close>

datatype registration =
    RVarP addr string string string
  | RStringVarP addr string string string string
  | RStringVarEnv "string \<rightharpoonup> string" addr string string string string string
  | RBoolVarP addr string string bool string
  | RIntVarP addr string string int string
  | RStringSliceVarP addr string string "string list" string

fun register :: "extern \<Rightarrow> registration \<Rightarrow> FlagSet \<times> world \<Rightarrow> panic + FlagSet \<times> world" where
  "register X (RVarP field longN shortN usageS) = VarP X field longN shortN usageS"
| "register X (RStringVarP field longN shortN dflt usageS) =
     StringVarP X field longN shortN dflt usageS"
| "register X (RStringVarEnv env field longN shortN dflt envName usageS) =
     StringVarEnv X env field longN shortN dflt envName usageS"
| "register X (RBoolVarP field longN shortN dflt usageS) = BoolVarP X field longN shortN dflt usageS"
| "register X (RIntVarP field longN shortN dflt usageS) = IntVarP X field longN shortN dflt usageS"
| "register X (RStringSliceVarP field longN shortN dflt usageS) =
     StringSliceVarP X field longN shortN dflt usageS"

fun fieldOf :: "registration \<Rightarrow> addr" where
  "fieldOf (RVarP field longN shortN usageS) = field"
| "fieldOf (RStringVarP field longN shortN dflt usageS) = field"
| "fieldOf (RStringVarEnv env field longN shortN dflt envName usageS) = field"
| "fieldOf (RBoolVarP field longN shortN dflt usageS) = field"
| "fieldOf (RIntVarP field longN shortN dflt usageS) = field"
| "fieldOf (RStringSliceVarP field longN shortN dflt usageS) = field"

fun longOf :: "registration \<Rightarrow> string" where
  "longOf (RVarP field longN shortN usageS) = longN"
| "longOf (RStringVarP field longN shortN dflt usageS) = longN"
| "longOf (RStringVarEnv env field longN shortN dflt envName usageS) = longN"
| "longOf (RBoolVarP field longN shortN dflt usageS) = longN"
| "longOf (RIntVarP field longN shortN dflt usageS) = longN"
| "longOf (RStringSliceVarP field longN shortN dflt usageS) = longN"

fun shortOf :: "registration \<Rightarrow> string" where
  "shortOf (RVarP field longN shortN usageS) = shortN"
| "shortOf (RStringVarP field longN shortN dflt usageS) = shortN"
| "shortOf (RStringVarEnv env field longN shortN dflt envName usageS) = shortN"
| "shortOf (RBoolVarP field longN shortN dflt usageS) = shortN"
| "shortOf (RIntVarP field longN shortN dflt usageS) = shortN"
| "shortOf (RStringSliceVarP field longN shortN dflt usageS) = shortN"

text \<open>What a registration under two names leaves behind.\<close>

definition aliased :: "string \<Rightarrow> string \<Rightarrow> addr \<Rightarrow> nat \<Rightarrow> FlagSet \<times> world \<Rightarrow> bool" where
  "aliased shortN longN field d = (\<lambda>(fs', w').
     valuesM (flagKeys fs') shortN = Some d \<and> valuesM (flagKeys fs') longN = Some d \<and>
     short (heap w' d) = shortN \<and> long (heap w' d) = longN \<and>
     map_option Value (Lookup (formal w') shortN) = Some field \<and>
     map_option Value (Lookup (formal w') longN) = Some field \<and>
     map_option Name (Lookup (formal w') shortN) = Some shortN \<and>
     map_option Name (Lookup (formal w') longN) = Some longN)"


section \<open>Properties\<close>

subsection \<open>The flag table and registration\<close>

lemma Lookup_Nil [simp]: "Lookup [] n = None"
  by (simp add: Lookup_def)

lemma Lookup_Cons [simp]: "Lookup (f # fl) n = (if Name f = n then Some f else Lookup fl n)"
  by (simp add: Lookup_def)

lemma Lookup_append:
  "Lookup (xs @ ys) n = (case Lookup xs n of Some f \<Rightarrow> Some f | None \<Rightarrow> Lookup ys n)"
  by (induction xs) auto

lemma flag_Var_mem: "flag_Var X p name u w = Inr w' \<Longrightarrow> mem w' = mem w"
  by (auto simp: flag_Var_def split: option.splits)

lemma flag_Var_formal:
  "flag_Var X p name u w = Inr w' \<Longrightarrow>
   formal w' = formal w @ [\<lparr>Name = name, Usage = u, Value = p, DefValue = Value_String X (mem w p)\<rparr>]"
  by (auto simp: flag_Var_def split: option.splits)

lemma flag_Var_heap: "flag_Var X p name u w = Inr w' \<Longrightarrow> heap w' = heap w \<and> brk w' = brk w"
  by (auto simp: flag_Var_def split: option.splits)

lemma flag_Var_fresh: "flag_Var X p name u w = Inr w' \<Longrightarrow> Lookup (formal w) name = None"
  by (auto simp: flag_Var_def split: option.splits)

lemma insertBoth_result:
  assumes "insertBoth shortN longN data (fs, w) = (fs', w')"
  shows "valuesM (flagKeys fs') shortN = Some (brk w)"
    and "valuesM (flagKeys fs') longN = Some (brk w)"
    and "heap w' (brk w) = data"
    and "mem w' = mem w" and "formal w' = formal w" and "brk w' = Suc (brk w)"
  using assms
  by (auto simp: insertBoth_def new_flagData_def flagKeys_Set_def IOM_Set_def)





subsection \<open>Defaults of a slice flag\<close>




subsection \<open>Iterating the ordered map\<close>

lemma forEach_entries: "forEach m fn s = fold (\<lambda>(k, d). fn k d) (entries m) s"
proof -
  have "fold (\<lambda>key s. case valuesM m key of Some d \<Rightarrow> fn key d s | None \<Rightarrow> s) ks s =
        fold (\<lambda>(k, d). fn k d) (List.map_filter (\<lambda>key. map_option (Pair key) (valuesM m key)) ks) s"
    for ks
    by (induction ks arbitrary: s) (auto simp: List.map_filter_simps split: option.splits)
  then show ?thesis by (simp add: forEach_def entries_def)
qed

lemma firstByHash_hashes:
  "h ` set (firstByHash h seen xs) = h ` set xs - seen"
  by (induction xs arbitrary: seen) auto

lemma firstByHash_distinct: "distinct (map h (firstByHash h seen xs))"
  by (induction xs arbitrary: seen) (auto simp: firstByHash_hashes)

lemma firstByHash_subseq: "set (firstByHash h seen xs) \<subseteq> set xs"
  by (induction xs arbitrary: seen) auto

lemma firstByHash_seen:
  "a \<in> seen \<Longrightarrow> filter (\<lambda>y. h y = a) (firstByHash h seen xs) = []"
  by (induction xs arbitrary: seen) auto

lemma firstByHash_count:
  "a \<in> h ` set xs \<Longrightarrow> a \<notin> seen \<Longrightarrow>
   length (filter (\<lambda>y. h y = a) (firstByHash h seen xs)) = 1"
  by (induction xs arbitrary: seen) (auto simp: firstByHash_seen)

lemma configVisitor_step:
  "configVisitor X w k d (seen, buf) =
     (if entryHash X w (k, d) \<in> seen then (seen, buf)
      else (insert (entryHash X w (k, d)) seen, buf @ configEntry X w (heap w d)))"
  by (simp add: configVisitor_def entryHash_def configEntry_def Let_def)

lemma usageVisitor_step:
  "usageVisitor X w k d (Inr (seen, buf)) =
     (if entryHash X w (k, d) \<in> seen then Inr (seen, buf)
      else (case usageLine X w (k, d) of
              Inl p \<Rightarrow> Inl p
            | Inr l \<Rightarrow> Inr (insert (entryHash X w (k, d)) seen, buf @ l)))"
  by (simp add: usageVisitor_def entryHash_def usageLine_def Let_def split: sum.splits)

lemma usageVisitor_Inl: "usageVisitor X w k d (Inl p) = Inl p"
  by (simp add: usageVisitor_def)

lemma config_fold:
  "fold (\<lambda>(k, d). configVisitor X w k d) es (seen, buf) =
     (seen \<union> entryHash X w ` set es,
      buf @ concat (map (\<lambda>e. configEntry X w (heap w (snd e))) (firstByHash (entryHash X w) seen es)))"
proof (induction es arbitrary: seen buf)
  case Nil
  then show ?case by simp
next
  case (Cons e es)
  obtain k d where e: "e = (k, d)" by (cases e)
  show ?case
    by (auto simp: e Cons.IH configVisitor_step insert_absorb)
qed

lemma usage_fold_Inl: "fold (\<lambda>(k, d). usageVisitor X w k d) es (Inl p) = Inl p"
  by (induction es) (auto simp: usageVisitor_Inl)

lemma usage_fold:
  "fold (\<lambda>(k, d). usageVisitor X w k d) es (Inr (seen, buf)) =
     (case traverse (usageLine X w) (firstByHash (entryHash X w) seen es) of
        Inl p \<Rightarrow> Inl p
      | Inr ls \<Rightarrow> Inr (seen \<union> entryHash X w ` set es, buf @ concat ls))"
proof (induction es arbitrary: seen buf)
  case Nil
  then show ?case by simp
next
  case (Cons e es)
  obtain k d where e: "e = (k, d)" by (cases e)
  show ?case
    by (auto simp: e Cons.IH usageVisitor_step usage_fold_Inl insert_absorb split: sum.splits)
qed

lemma generateDefaultConfig_commented:
  "generateDefaultConfig X prog (fs\<lparr>Marshal := False\<rparr>) w =
     TrimSuffix (configHeader prog @
                 concat (map (\<lambda>e. configEntry X w (heap w (snd e))) (uniqueFlags X fs w))) [LF, LF]"
  by (simp add: generateDefaultConfig_def forEach_entries config_fold uniqueFlags_def Let_def
      del: TrimSuffix.simps)

lemma usageFunc_lines:
  "usageFunc X prog fs w =
     (case traverse (usageLine X w) (uniqueFlags X fs w) of
        Inl p \<Rightarrow> Inl p
      | Inr ls \<Rightarrow> Inr (usageHeader prog fs @ tabwriter X (concat ls)))"
  by (simp add: usageFunc_def forEach_entries usage_fold uniqueFlags_def split: sum.splits)

subsection \<open>Each flag is emitted once\<close>

lemma reg1: "StringVarP X0 0 ''name'' ''n'' ''anon'' ''User Name'' (NewFlagSet, w0) = Inr (fs1, w1)"
  by (simp add: StringVarP_def flag_StringVar_def flag_Var_def insertBoth_def new_flagData_def
      flagKeys_Set_def IOM_Set_def NewFlagSet_def newInsertionOrderedMap_def w0_def fs1_def w1_def
      Value_String_def X0_def)

lemma entries_fs1: "entries (flagKeys fs1) = [(''n'', 0), (''name'', 0)]"
  by (simp add: entries_def fs1_def List.map_filter_simps)

lemma uniqueFlags_fs1: "uniqueFlags X0 fs1 w1 = [(''n'', 0)]"
  by (simp add: uniqueFlags_def entries_fs1 entryHash_def X0_def w1_def)

text \<open>
  Claim C3. Both renderers emit each unique logical flag exactly once. The commented
  default configuration is the header followed by one entry per element of
  \<open>uniqueFlags\<close>, and the usage is its header followed by one line per element of
  \<open>uniqueFlags\<close> (or the panic of the first line that fails). \<open>uniqueFlags\<close> is the
  visiting sequence of the ordered map with every descriptor skipped whose content hash was
  emitted before: it holds only visited entries, and for every visited entry, so for both
  aliases of a flag registered under two names, exactly one element with that entry's hash.
\<close>

theorem each_flag_emitted_once:
  "generateDefaultConfig X prog (fs\<lparr>Marshal := False\<rparr>) w =
     TrimSuffix (configHeader prog @
                 concat (map (\<lambda>e. configEntry X w (heap w (snd e))) (uniqueFlags X fs w))) [LF, LF] \<and>
   usageFunc X prog fs w =
     (case traverse (usageLine X w) (uniqueFlags X fs w) of
        Inl p \<Rightarrow> Inl p
      | Inr ls \<Rightarrow> Inr (usageHeader prog fs @ tabwriter X (concat ls))) \<and>
   set (uniqueFlags X fs w) \<subseteq> set (entries (flagKeys fs)) \<and>
   (\<forall>e \<in> set (entries (flagKeys fs)).
      length (filter (\<lambda>u. entryHash X w u = entryHash X w e) (uniqueFlags X fs w)) = 1)"
proof -
  have "length (filter (\<lambda>u. entryHash X w u = entryHash X w e) (uniqueFlags X fs w)) = 1"
    if "e \<in> set (entries (flagKeys fs))" for e
    unfolding uniqueFlags_def using that by (intro firstByHash_count) auto
  then show ?thesis
    using generateDefaultConfig_commented[of X prog fs w] usageFunc_lines[of X prog fs w]
      firstByHash_subseq[of "entryHash X w" "{}" "entries (flagKeys fs)"]
    by (simp add: uniqueFlags_def del: TrimSuffix.simps)
qed

theorem each_flag_emitted_once_witness:
  "(''n'', 0) \<in> set (entries (flagKeys fs1)) \<and> (''name'', 0) \<in> set (entries (flagKeys fs1)) \<and>
   entryHash X0 w1 (''name'', 0) = entryHash X0 w1 (''n'', 0) \<and>
   length (filter (\<lambda>u. entryHash X0 w1 u = entryHash X0 w1 (''name'', 0)) (uniqueFlags X0 fs1 w1)) = 1 \<and>
   uniqueFlags X0 fs1 w1 = [(''n'', 0)]"
proof -
  have m: "(''n'', 0) \<in> set (entries (flagKeys fs1))" "(''name'', 0) \<in> set (entries (flagKeys fs1))"
    by (simp_all add: entries_fs1)
  from each_flag_emitted_once[of X0 "''app''" fs1 w1] m(2)
  have "length (filter (\<lambda>u. entryHash X0 w1 u = entryHash X0 w1 (''name'', 0)) (uniqueFlags X0 fs1 w1)) = 1"
    by blast
  then show ?thesis using m by (simp add: uniqueFlags_fs1 entryHash_def)
qed

lemma TrimSuffix_append: "TrimSuffix (s @ suf) suf = s"
  by simp

lemma configEntry_ends: "\<exists>s. configEntry X w d = s @ [LF, LF]"
  by (simp add: configEntry_def)

lemma configHeader_hdr:
  "configHeader prog =
     (''# '' @ path_Base prog @ '' config file'' @ [LF] @
      ''# generated by https://github.com/projectdiscovery/goflags'') @ [LF, LF]"
  by (simp add: configHeader_def)

lemma buffer_ends:
  "\<exists>s. configHeader prog @ concat (map (\<lambda>e. configEntry X w (heap w (snd e))) us) = s @ [LF, LF]"
proof (cases us rule: rev_cases)
  case Nil
  then show ?thesis using configHeader_hdr[of prog] by simp
next
  case (snoc us' u)
  obtain s where "configEntry X w (heap w (snd u)) = s @ [LF, LF]"
    using configEntry_ends by blast
  then show ?thesis using snoc
    by (metis (no_types, lifting) append.assoc concat.simps(1) concat.simps(2) concat_append list.simps(8) list.simps(9) map_append append_Nil2)
qed

lemma commented_append:
  "generateDefaultConfig X prog (fs\<lparr>Marshal := False\<rparr>) w @ [LF, LF] =
     configHeader prog @ concat (map (\<lambda>e. configEntry X w (heap w (snd e))) (uniqueFlags X fs w))"
proof -
  obtain s where s: "configHeader prog @
      concat (map (\<lambda>e. configEntry X w (heap w (snd e))) (uniqueFlags X fs w)) = s @ [LF, LF]"
    using buffer_ends by blast
  show ?thesis
    unfolding generateDefaultConfig_commented s TrimSuffix_append ..
qed

subsection \<open>Registering under two names\<close>

lemma register_both:
  assumes v1: "flag_Var X field shortN u wa = Inr wb"
    and v2: "flag_Var X field longN u wb = Inr wc"
    and r: "insertBoth shortN longN data (fs, wc) = (fs', w')"
  shows "shortN \<noteq> longN"
    and "Lookup (formal wa) shortN = None" and "Lookup (formal wa) longN = None"
    and "formal w' = formal wa @
           [\<lparr>Name = shortN, Usage = u, Value = field, DefValue = Value_String X (mem wa field)\<rparr>,
            \<lparr>Name = longN, Usage = u, Value = field, DefValue = Value_String X (mem wa field)\<rparr>]"
    and "mem w' = mem wa" and "brk w' = Suc (brk wa)"
    and "heap w' = (heap wa)(brk wa := data)"
    and "valuesM (flagKeys fs') = (valuesM (flagKeys fs))(shortN \<mapsto> brk wa, longN \<mapsto> brk wa)"
    and "keys (flagKeys fs') =
           keys (flagKeys fs) @ (if valuesM (flagKeys fs) shortN = None then [shortN] else []) @
           (if valuesM (flagKeys fs) longN = None then [longN] else [])"
    and "Marshal fs' = Marshal fs" and "description fs' = description fs"
proof -
  note f1 = flag_Var_formal[OF v1] and f2 = flag_Var_formal[OF v2]
  note m1 = flag_Var_mem[OF v1] and m2 = flag_Var_mem[OF v2]
  note h1 = flag_Var_heap[OF v1] and h2 = flag_Var_heap[OF v2]
  show n1: "Lookup (formal wa) shortN = None" using flag_Var_fresh[OF v1] .
  show ne: "shortN \<noteq> longN" and n2: "Lookup (formal wa) longN = None"
    using flag_Var_fresh[OF v2] f1 by (auto simp: Lookup_append split: option.splits if_splits)
  show "formal w' = formal wa @
           [\<lparr>Name = shortN, Usage = u, Value = field, DefValue = Value_String X (mem wa field)\<rparr>,
            \<lparr>Name = longN, Usage = u, Value = field, DefValue = Value_String X (mem wa field)\<rparr>]"
    using r f1 f2 m1 by (auto simp: insertBoth_def new_flagData_def)
  show "mem w' = mem wa" using r m1 m2 by (auto simp: insertBoth_def new_flagData_def)
  show "brk w' = Suc (brk wa)" using r h1 h2 by (auto simp: insertBoth_def new_flagData_def)
  show "heap w' = (heap wa)(brk wa := data)"
    using r h1 h2 by (auto simp: insertBoth_def new_flagData_def)
  show "valuesM (flagKeys fs') = (valuesM (flagKeys fs))(shortN \<mapsto> brk wa, longN \<mapsto> brk wa)"
    using r h1 h2 by (auto simp: insertBoth_def new_flagData_def flagKeys_Set_def IOM_Set_def)
  show "keys (flagKeys fs') =
           keys (flagKeys fs) @ (if valuesM (flagKeys fs) shortN = None then [shortN] else []) @
           (if valuesM (flagKeys fs) longN = None then [longN] else [])"
    using r ne by (auto simp: insertBoth_def new_flagData_def flagKeys_Set_def IOM_Set_def)
  show "Marshal fs' = Marshal fs" "description fs' = description fs"
    using r by (auto simp: insertBoth_def new_flagData_def flagKeys_Set_def)
qed

lemma StringVarP_result:
  assumes "StringVarP X field longN shortN dflt usageS (fs, w) = Inr (fs', w')"
  shows "shortN \<noteq> longN"
    and "Lookup (formal w) shortN = None" and "Lookup (formal w) longN = None"
    and "formal w' = formal w @
           [\<lparr>Name = shortN, Usage = usageS, Value = field, DefValue = dflt\<rparr>,
            \<lparr>Name = longN, Usage = usageS, Value = field, DefValue = dflt\<rparr>]"
    and "mem w' = (mem w)(field := stringValue dflt)" and "brk w' = Suc (brk w)"
    and "heap w' = (heap w)(brk w :=
           \<lparr>usage = usageS, short = shortN, long = longN, defaultValue = AString dflt\<rparr>)"
    and "valuesM (flagKeys fs') = (valuesM (flagKeys fs))(shortN \<mapsto> brk w, longN \<mapsto> brk w)"
    and "keys (flagKeys fs') =
           keys (flagKeys fs) @ (if valuesM (flagKeys fs) shortN = None then [shortN] else []) @
           (if valuesM (flagKeys fs) longN = None then [longN] else [])"
    and "Marshal fs' = Marshal fs" and "description fs' = description fs"
proof -
  let ?wa = "w\<lparr>mem := (mem w)(field := stringValue dflt)\<rparr>"
  from assms obtain wb wc where
    v1: "flag_Var X field shortN usageS ?wa = Inr wb" and
    v2: "flag_Var X field longN usageS wb = Inr wc" and
    r: "insertBoth shortN longN
          \<lparr>usage = usageS, short = shortN, long = longN, defaultValue = AString dflt\<rparr> (fs, wc) =
        (fs', w')"
  proof -
    from assms obtain wb where v1: "flag_StringVar X field shortN dflt usageS w = Inr wb"
      by (auto simp: StringVarP_def split: sum.splits)
    with assms obtain wc where v2: "flag_StringVar X field longN dflt usageS wb = Inr wc"
      by (auto simp: StringVarP_def split: sum.splits)
    have mb: "mem wb = (mem w)(field := stringValue dflt)"
      using v1 flag_Var_mem by (fastforce simp: flag_StringVar_def)
    then have "wb\<lparr>mem := (mem wb)(field := stringValue dflt)\<rparr> = wb" by simp
    then have "flag_Var X field longN usageS wb = Inr wc"
      using v2 by (simp add: flag_StringVar_def)
    then show ?thesis using that v1 v2 assms by (auto simp: StringVarP_def flag_StringVar_def)
  qed
  note rb = register_both[OF v1 v2 r]
  show "shortN \<noteq> longN" by (rule rb(1))
  show "Lookup (formal w) shortN = None" "Lookup (formal w) longN = None"
    using rb(2,3) by simp_all
  show "formal w' = formal w @
           [\<lparr>Name = shortN, Usage = usageS, Value = field, DefValue = dflt\<rparr>,
            \<lparr>Name = longN, Usage = usageS, Value = field, DefValue = dflt\<rparr>]"
    using rb(4) by (simp add: Value_String_def)
  show "mem w' = (mem w)(field := stringValue dflt)" using rb(5) by simp
  show "brk w' = Suc (brk w)" using rb(6) by simp
  show "heap w' = (heap w)(brk w :=
           \<lparr>usage = usageS, short = shortN, long = longN, defaultValue = AString dflt\<rparr>)"
    using rb(7) by simp
  show "valuesM (flagKeys fs') = (valuesM (flagKeys fs))(shortN \<mapsto> brk w, longN \<mapsto> brk w)"
    using rb(8) by simp
  show "keys (flagKeys fs') =
           keys (flagKeys fs) @ (if valuesM (flagKeys fs) shortN = None then [shortN] else []) @
           (if valuesM (flagKeys fs) longN = None then [longN] else [])"
    using rb(9) by simp
  show "Marshal fs' = Marshal fs" "description fs' = description fs" using rb(10,11) by simp_all
qed

subsection \<open>The default configuration document\<close>

lemma config_fs1:
  "generateDefaultConfig X0 ''/usr/bin/app'' fs1 w1 =
     ''# app config file\<newline># generated by https://github.com/projectdiscovery/goflags\<newline>\<newline># user name\<newline>#name: anon''"
  by (simp add: generateDefaultConfig_def fs1_def w1_def X0_def forEach_def configVisitor_def
      configHeader_def path_Base_def ToLower_ascii_def lowerc_def defaultText_def Let_def)

text \<open>
  After the single registration of the example, the document generated for the program
  \<open>/usr/bin/app\<close> ends with the default value of the last entry: no newline follows it.
\<close>

theorem config_trailing_newline_counterexample:
  "StringVarP X0 0 ''name'' ''n'' ''anon'' ''User Name'' (NewFlagSet, w0) = Inr (fs1, w1) \<and>
   generateDefaultConfig X0 ''/usr/bin/app'' fs1 w1 =
     ''# app config file\<newline># generated by https://github.com/projectdiscovery/goflags\<newline>\<newline># user name\<newline>#name: anon'' \<and>
   last (generateDefaultConfig X0 ''/usr/bin/app'' fs1 w1) \<noteq> LF"
  by (simp add: reg1 config_fs1)

lemma Marshal_update_id: "Marshal fs = b \<Longrightarrow> fs\<lparr>Marshal := b\<rparr> = fs"
  by simp

lemma generateDefaultConfig_cases:
  "generateDefaultConfig X prog fs w =
     (if Marshal fs
      then (case yaml_Marshal X (mem w) (forEach (flagKeys fs) (marshalVisitor w) []) of
              Some flagSetBytes \<Rightarrow> configHeader prog @ flagSetBytes
            | None \<Rightarrow> generateDefaultConfig X prog (fs\<lparr>Marshal := False\<rparr>) w)
      else generateDefaultConfig X prog (fs\<lparr>Marshal := False\<rparr>) w)"
  by (simp add: generateDefaultConfig_def Let_def del: TrimSuffix.simps split: option.splits)

text \<open>
  Claim C8, as amended. For every registry the generated document begins with the two
  comment header lines, the first naming the base name of the invoking program and the
  second the generating library. In the commented mode the trailing double newline of the
  buffer is removed entirely, not trimmed to a single newline: the document followed by
  two newlines is the buffer, that is the header, its blank line and the entries. In the
  structured mode nothing is trimmed: the document is the header and its blank line
  followed by the serialised bytes, or the commented document when the serialisation fails.
\<close>

theorem config_header_and_trim:
  "take (length (''# '' @ path_Base prog @ '' config file'' @ [LF] @
                 ''# generated by https://github.com/projectdiscovery/goflags''))
        (generateDefaultConfig X prog fs w) =
     ''# '' @ path_Base prog @ '' config file'' @ [LF] @
     ''# generated by https://github.com/projectdiscovery/goflags'' \<and>
   generateDefaultConfig X prog (fs\<lparr>Marshal := False\<rparr>) w @ [LF, LF] =
     (''# '' @ path_Base prog @ '' config file'' @ [LF] @
      ''# generated by https://github.com/projectdiscovery/goflags'' @ [LF, LF]) @
     concat (map (\<lambda>e. configEntry X w (heap w (snd e))) (uniqueFlags X fs w)) \<and>
   generateDefaultConfig X prog (fs\<lparr>Marshal := True\<rparr>) w =
     (case yaml_Marshal X (mem w) (forEach (flagKeys fs) (marshalVisitor w) []) of
        Some flagSetBytes \<Rightarrow>
          (''# '' @ path_Base prog @ '' config file'' @ [LF] @
           ''# generated by https://github.com/projectdiscovery/goflags'' @ [LF, LF]) @ flagSetBytes
      | None \<Rightarrow> generateDefaultConfig X prog (fs\<lparr>Marshal := False\<rparr>) w)"
proof -
  let ?hdr = "''# '' @ path_Base prog @ '' config file'' @ [LF] @
      ''# generated by https://github.com/projectdiscovery/goflags''"
  let ?c = "concat (map (\<lambda>e. configEntry X w (heap w (snd e))) (uniqueFlags X fs w))"
  let ?out = "generateDefaultConfig X prog (fs\<lparr>Marshal := False\<rparr>) w"
  have h: "configHeader prog = ?hdr @ [LF, LF]" using configHeader_hdr[of prog] by simp
  have a: "?out @ [LF, LF] = ?hdr @ [LF, LF] @ ?c"
    using commented_append[of X prog fs w] h by simp
  have len: "length ?out = length ?hdr + length ?c"
  proof -
    have "length (?out @ [LF, LF]) = length (?hdr @ [LF, LF] @ ?c)" using a by simp
    then show ?thesis by simp
  qed
  have "take (length ?hdr) (?out @ [LF, LF]) = ?hdr" unfolding a by simp
  then have t: "take (length ?hdr) ?out = ?hdr" using len by simp
  have c1: "take (length ?hdr) (generateDefaultConfig X prog fs w) = ?hdr"
  proof (cases "Marshal fs \<and> yaml_Marshal X (mem w) (forEach (flagKeys fs) (marshalVisitor w) []) \<noteq> None")
    case True
    then obtain b where "generateDefaultConfig X prog fs w = configHeader prog @ b"
      using generateDefaultConfig_cases[of X prog fs w] by (auto split: option.splits)
    then show ?thesis unfolding h by simp
  next
    case False
    then have "generateDefaultConfig X prog fs w = ?out"
      using generateDefaultConfig_cases[of X prog fs w] by (auto split: option.splits)
    then show ?thesis using t by simp
  qed
  have c2: "?out @ [LF, LF] = (?hdr @ [LF, LF]) @ ?c"
    using a by simp
  have c3: "generateDefaultConfig X prog (fs\<lparr>Marshal := True\<rparr>) w =
     (case yaml_Marshal X (mem w) (forEach (flagKeys fs) (marshalVisitor w) []) of
        Some flagSetBytes \<Rightarrow> (?hdr @ [LF, LF]) @ flagSetBytes
      | None \<Rightarrow> ?out)"
    unfolding h[symmetric]
    using generateDefaultConfig_cases[of X prog "fs\<lparr>Marshal := True\<rparr>" w]
    by (simp split: option.splits)
  from c1 c2 c3 show ?thesis
    unfolding append_assoc by (intro conjI)
qed

text \<open>
  Claim C10. In the commented document the key written for every emitted flag is the long
  name of its descriptor. For a string flag registered under two names on an empty
  registry, the ordered map visits the short key first, the only emitted entry is the one of
  that visit, and the key written is still the long name.
\<close>

theorem config_key_is_long_name:
  "generateDefaultConfig X prog (fs\<lparr>Marshal := False\<rparr>) w @ [LF, LF] =
     configHeader prog @
     concat (map (\<lambda>e. ''# '' @ ToLower X (usage (heap w (snd e))) @ [LF] @
                       ''#'' @ long (heap w (snd e)) @ '': '' @
                       defaultText X w (defaultValue (heap w (snd e))) @ [LF, LF])
                 (uniqueFlags X fs w)) \<and>
   (StringVarP X field longN shortN dflt usageS (NewFlagSet, w) = Inr (fs', w') \<longrightarrow>
      keys (flagKeys fs') = [shortN, longN] \<and>
      uniqueFlags X fs' w' = [(shortN, brk w)] \<and>
      generateDefaultConfig X prog fs' w' @ [LF, LF] =
        configHeader prog @ ''# '' @ ToLower X usageS @ [LF] @ ''#'' @ longN @ '': '' @ dflt @ [LF, LF])"
proof -
  have gen: "generateDefaultConfig X prog (fs\<lparr>Marshal := False\<rparr>) w @ [LF, LF] =
     configHeader prog @
     concat (map (\<lambda>e. ''# '' @ ToLower X (usage (heap w (snd e))) @ [LF] @
                       ''#'' @ long (heap w (snd e)) @ '': '' @
                       defaultText X w (defaultValue (heap w (snd e))) @ [LF, LF])
                 (uniqueFlags X fs w))" for fs w
    using commented_append[of X prog fs w] by (simp add: configEntry_def)
  have "keys (flagKeys fs') = [shortN, longN] \<and>
      uniqueFlags X fs' w' = [(shortN, brk w)] \<and>
      generateDefaultConfig X prog fs' w' @ [LF, LF] =
        configHeader prog @ ''# '' @ ToLower X usageS @ [LF] @ ''#'' @ longN @ '': '' @ dflt @ [LF, LF]"
    if reg: "StringVarP X field longN shortN dflt usageS (NewFlagSet, w) = Inr (fs', w')"
  proof -
    note sr = StringVarP_result[OF reg]
    have k: "keys (flagKeys fs') = [shortN, longN]"
      using sr(9) sr(1) by (simp add: NewFlagSet_def newInsertionOrderedMap_def)
    have e: "entries (flagKeys fs') = [(shortN, brk w), (longN, brk w)]"
      using k sr(8) sr(1) by (simp add: entries_def List.map_filter_simps)
    have u: "uniqueFlags X fs' w' = [(shortN, brk w)]"
      by (simp add: uniqueFlags_def e entryHash_def)
    have m: "Marshal fs' = False" using sr(10) by (simp add: NewFlagSet_def)
    have "generateDefaultConfig X prog fs' w' @ [LF, LF] =
        configHeader prog @ ''# '' @ ToLower X usageS @ [LF] @ ''#'' @ longN @ '': '' @ dflt @ [LF, LF]"
      using gen[of fs' w'] Marshal_update_id[OF m] u sr(7) by (simp add: defaultText_def)
    then show ?thesis using k u by simp
  qed
  then show ?thesis using gen[of fs w] by blast
qed

theorem config_key_is_long_name_witness:
  "StringVarP X0 0 ''name'' ''n'' ''anon'' ''User Name'' (NewFlagSet, w0) = Inr (fs1, w1) \<and>
   keys (flagKeys fs1) = [''n'', ''name''] \<and>
   uniqueFlags X0 fs1 w1 = [(''n'', 0)] \<and>
   generateDefaultConfig X0 ''app'' fs1 w1 @ [LF, LF] =
     configHeader ''app'' @ ''# user name'' @ [LF] @ ''#name: anon'' @ [LF, LF]"
proof -
  have b: "brk w0 = 0" by (simp add: w0_def)
  have l: "ToLower X0 ''User Name'' = ''user name''"
    by (simp add: X0_def ToLower_ascii_def lowerc_def)
  from config_key_is_long_name[where X = X0 and prog = "''app''" and w = w0 and field = 0
      and longN = "''name''" and shortN = "''n''" and dflt = "''anon''" and usageS = "''User Name''"
      and fs' = fs1 and w' = w1] reg1 b l
  show ?thesis by simp
qed

text \<open>
  Claim C9. With \<open>Marshal\<close> set, the generation first serialises the map that takes
  every key of the ordered map to its descriptor's default value; when the serialisation
  succeeds the document is the header followed by its bytes, and when it fails the document
  is exactly the commented one. The generation is a total function: it has no error result.
\<close>

theorem marshal_failure_falls_back:
  "generateDefaultConfig X prog (fs\<lparr>Marshal := True\<rparr>) w =
     (case yaml_Marshal X (mem w) (forEach (flagKeys fs) (marshalVisitor w) []) of
        Some flagSetBytes \<Rightarrow> configHeader prog @ flagSetBytes
      | None \<Rightarrow> generateDefaultConfig X prog (fs\<lparr>Marshal := False\<rparr>) w) \<and>
   map_of (forEach (flagKeys fs) (marshalVisitor w) []) =
     (\<lambda>key. if key \<in> set (keys (flagKeys fs))
             then map_option (\<lambda>d. defaultValue (heap w d)) (valuesM (flagKeys fs) key)
             else None)"
proof -
  have c: "generateDefaultConfig X prog (fs\<lparr>Marshal := True\<rparr>) w =
     (case yaml_Marshal X (mem w) (forEach (flagKeys fs) (marshalVisitor w) []) of
        Some flagSetBytes \<Rightarrow> configHeader prog @ flagSetBytes
      | None \<Rightarrow> generateDefaultConfig X prog (fs\<lparr>Marshal := False\<rparr>) w)"
    using generateDefaultConfig_cases[of X prog "fs\<lparr>Marshal := True\<rparr>" w]
    by (simp split: option.splits)
  have "map_of (fold (\<lambda>key s. case valuesM m key of Some d \<Rightarrow> marshalVisitor w key d s | None \<Rightarrow> s) ks al) key =
        (if key \<in> set ks then (case valuesM m key of Some d \<Rightarrow> Some (defaultValue (heap w d)) | None \<Rightarrow> map_of al key)
                else map_of al key)" for m ks al key
    by (induction ks arbitrary: al)
       (auto simp: marshalVisitor_def update_conv' split: option.splits)
  from this[of "flagKeys fs" "keys (flagKeys fs)" "[]"] have "map_of (forEach (flagKeys fs) (marshalVisitor w) []) =
     (\<lambda>key. if key \<in> set (keys (flagKeys fs))
             then map_option (\<lambda>d. defaultValue (heap w d)) (valuesM (flagKeys fs) key)
             else None)"
    by (auto simp: forEach_def fun_eq_iff split: option.splits)
  then show ?thesis using c by simp
qed

subsection \<open>A flag without names\<close>

lemma regB: "StringVar X0 0 [] ''d'' ''u'' (NewFlagSet, w0) = Inr (fsB, wB)"
  by (simp add: StringVar_def flag_StringVar_def flag_Var_def insertLong_def new_flagData_def
      flagKeys_Set_def IOM_Set_def NewFlagSet_def newInsertionOrderedMap_def w0_def fsB_def wB_def
      Value_String_def X0_def)

lemma createUsageFlagNames_blank:
  "createUsageFlagNames data = Inl CLIArgumentsEmpty \<longleftrightarrow>
     \<not> isNotBlank (short data) \<and> \<not> isNotBlank (long data)"
  by (auto simp: createUsageFlagNames_def addValidParam_def Let_def)

lemma createUsageString_panics:
  "createUsageString X w data (Some f) = Inl p \<Longrightarrow> p = CLIArgumentsEmpty"
  by (auto simp: createUsageString_def createUsageFlagNames_def Let_def split: sum.splits if_splits)

lemma traverse_Inl:
  assumes "\<And>x p. x \<in> set xs \<Longrightarrow> f x = Inl p \<Longrightarrow> p = q"
    and "\<exists>x \<in> set xs. isl (f x)"
  shows "traverse f xs = Inl q"
  using assms
proof (induction xs)
  case Nil
  then show ?case by simp
next
  case (Cons x xs)
  show ?case
  proof (cases "f x")
    case (Inl p)
    then show ?thesis using Cons.prems(1)[of x p] by simp
  next
    case (Inr y)
    then have "\<exists>x \<in> set xs. isl (f x)" using Cons.prems(2) by auto
    then have "traverse f xs = Inl q" using Cons by auto
    then show ?thesis using Inr by simp
  qed
qed

lemma blank_usageFunc:
  assumes l: "\<forall>e \<in> set (uniqueFlags X fs w). Lookup (formal w) (fst e) \<noteq> None"
    and b: "\<exists>e \<in> set (uniqueFlags X fs w).
        \<not> isNotBlank (short (heap w (snd e))) \<and> \<not> isNotBlank (long (heap w (snd e)))"
  shows "usageFunc X prog fs w = Inl CLIArgumentsEmpty"
proof -
  have a: "createUsageString X w data (Some f) = Inl CLIArgumentsEmpty"
    if "\<not> isNotBlank (short data) \<and> \<not> isNotBlank (long data)" for data f
    using that createUsageFlagNames_blank[of data] by (simp add: createUsageString_def)
  have 1: "p = CLIArgumentsEmpty"
    if "e \<in> set (uniqueFlags X fs w)" "usageLine X w e = Inl p" for e p
  proof -
    from l that(1) have "Lookup (formal w) (fst e) \<noteq> None" by blast
    then obtain f where "Lookup (formal w) (fst e) = Some f" by auto
    then show ?thesis using that(2) createUsageString_panics[of X w "heap w (snd e)" f p]
      by (auto simp: usageLine_def split: sum.splits)
  qed
  have 2: "\<exists>e \<in> set (uniqueFlags X fs w). isl (usageLine X w e)"
  proof -
    from b obtain e where e: "e \<in> set (uniqueFlags X fs w)"
      "\<not> isNotBlank (short (heap w (snd e))) \<and> \<not> isNotBlank (long (heap w (snd e)))" by auto
    from l e(1) have "Lookup (formal w) (fst e) \<noteq> None" by blast
    then obtain f where "Lookup (formal w) (fst e) = Some f" by auto
    then have "isl (usageLine X w e)" using a[OF e(2), of f] by (simp add: usageLine_def)
    then show ?thesis using e(1) by auto
  qed
  have "traverse (usageLine X w) (uniqueFlags X fs w) = Inl CLIArgumentsEmpty"
    using traverse_Inl[of "uniqueFlags X fs w" "usageLine X w" CLIArgumentsEmpty] 1 2 by blast
  then show ?thesis by (simp add: usageFunc_lines)
qed

lemma Parse_usage:
  "Parse X sys (UsageAndExit w status) fs =
     (case usageFunc X (Args0 sys) fs w of Inl p \<Rightarrow> Panicked p | Inr printed \<Rightarrow> Exited status printed)"
  by (simp add: Parse_def)

text \<open>
  After the single registration \<open>StringVar(&out, "", "d", "u")\<close> a help request makes
  the parser call the usage. The rendering does not return, neither a text nor an error: it
  panics, and so \<open>Parse\<close> does not return an error either; the panic leaves it, where
  a rendering that had returned would have let the parser exit with status 0.
\<close>

theorem blank_names_counterexample:
  "StringVar X0 0 [] ''d'' ''u'' (NewFlagSet, w0) = Inr (fsB, wB) \<and>
   \<not> isNotBlank (short (heap wB 0)) \<and> \<not> isNotBlank (long (heap wB 0)) \<and>
   usageFunc X0 ''/usr/bin/app'' fsB wB = Inl CLIArgumentsEmpty \<and>
   Parse X0 sys0 (UsageAndExit wB 0) fsB = Panicked CLIArgumentsEmpty"
proof -
  have u: "usageFunc X0 ''/usr/bin/app'' fsB wB = Inl CLIArgumentsEmpty"
    by (simp add: usageFunc_def forEach_def fsB_def usageVisitor_def wB_def createUsageString_def
        createUsageFlagNames_def addValidParam_def isNotBlank_def TrimSpace_def X0_def Let_def)
  have b: "\<not> isNotBlank (short (heap wB 0)) \<and> \<not> isNotBlank (long (heap wB 0))"
    by (simp add: wB_def isNotBlank_def TrimSpace_def)
  have "Parse X0 sys0 (UsageAndExit wB 0) fsB = Panicked CLIArgumentsEmpty"
    using u by (simp add: Parse_usage sys0_def)
  then show ?thesis using regB u b by simp
qed

text \<open>
  Claim C6, as amended. A flag registered with neither a short nor a long name (both strings
  blank, that is empty or white space only) is not omitted by the usage rendering and is not
  reported by a returned error: the names of a descriptor cannot be rendered exactly when
  both are blank, the rendering of such a flag panics with
  \<open>CLI arguments cannot be empty.\<close>, and so does \<open>usageFunc\<close> as soon as one of the
  flags it emits is such a flag (every key being known to the parser). \<open>usageFunc\<close> has
  no error result and nothing in the package recovers the panic: when the parser calls the
  usage during \<open>Parse\<close>, the panic leaves \<open>Parse\<close>, which then returns neither
  \<open>nil\<close> nor an error; whatever the registry, a call of \<open>Parse\<close> in which the
  usage is rendered never returns.
\<close>

theorem blank_names_panic:
  "(createUsageFlagNames data = Inl CLIArgumentsEmpty \<longleftrightarrow>
      \<not> isNotBlank (short data) \<and> \<not> isNotBlank (long data)) \<and>
   (\<not> isNotBlank (short data) \<and> \<not> isNotBlank (long data) \<longrightarrow>
      createUsageString X w data (Some f) = Inl CLIArgumentsEmpty) \<and>
   ((\<forall>e \<in> set (uniqueFlags X fs w). Lookup (formal w) (fst e) \<noteq> None) \<and>
    (\<exists>e \<in> set (uniqueFlags X fs w).
        \<not> isNotBlank (short (heap w (snd e))) \<and> \<not> isNotBlank (long (heap w (snd e)))) \<longrightarrow>
      usageFunc X prog fs w = Inl CLIArgumentsEmpty \<and>
      Parse X sys (UsageAndExit w status) fs = Panicked CLIArgumentsEmpty) \<and>
   (\<forall>err w' written. Parse X sys (UsageAndExit w status) fs \<noteq> Returned err w' written)"
proof -
  have a: "createUsageString X w data (Some f) = Inl CLIArgumentsEmpty"
    if "\<not> isNotBlank (short data) \<and> \<not> isNotBlank (long data)"
    using that createUsageFlagNames_blank[of data] by (simp add: createUsageString_def)
  have u: "usageFunc X prog fs w = Inl CLIArgumentsEmpty \<and>
      Parse X sys (UsageAndExit w status) fs = Panicked CLIArgumentsEmpty"
    if l: "\<forall>e \<in> set (uniqueFlags X fs w). Lookup (formal w) (fst e) \<noteq> None"
      and b: "\<exists>e \<in> set (uniqueFlags X fs w).
        \<not> isNotBlank (short (heap w (snd e))) \<and> \<not> isNotBlank (long (heap w (snd e)))"
    using blank_usageFunc[OF l b, of prog] blank_usageFunc[OF l b, of "Args0 sys"]
    by (simp add: Parse_usage)
  have r: "Parse X sys (UsageAndExit w status) fs \<noteq> Returned err w' written" for err w' written
    by (simp add: Parse_usage split: sum.splits)
  show ?thesis using a u r createUsageFlagNames_blank[of data] by blast
qed

lemma regN:
  "StringVar X0 0 [CHR 0xC2, CHR 0xA0] ''d'' ''u'' (NewFlagSet, w0) = Inr (fsN, wN)"
  by (simp add: StringVar_def flag_StringVar_def flag_Var_def insertLong_def new_flagData_def
      flagKeys_Set_def IOM_Set_def NewFlagSet_def newInsertionOrderedMap_def w0_def fsN_def wN_def
      Value_String_def X0_def)

lemma uniqueFlags_fsN: "uniqueFlags X0 fsN wN = [([CHR 0xC2, CHR 0xA0], 0)]"
  by (simp add: uniqueFlags_def entries_def fsN_def List.map_filter_simps)

theorem blank_names_panic_witness:
  "StringVar X0 0 [CHR 0xC2, CHR 0xA0] ''d'' ''u'' (NewFlagSet, w0) = Inr (fsN, wN) \<and>
   \<not> isNotBlank (short (heap wN 0)) \<and> \<not> isNotBlank (long (heap wN 0)) \<and>
   uniqueFlags X0 fsN wN = [([CHR 0xC2, CHR 0xA0], 0)] \<and>
   Lookup (formal wN) [CHR 0xC2, CHR 0xA0] \<noteq> None \<and>
   createUsageFlagNames (heap wN 0) = Inl CLIArgumentsEmpty \<and>
   createUsageString X0 wN (heap wN 0) (Lookup (formal wN) [CHR 0xC2, CHR 0xA0]) =
     Inl CLIArgumentsEmpty \<and>
   usageFunc X0 ''/usr/bin/app'' fsN wN = Inl CLIArgumentsEmpty \<and>
   Parse X0 sys0 (UsageAndExit wN 0) fsN = Panicked CLIArgumentsEmpty"
proof -
  have b: "\<not> isNotBlank (short (heap wN 0)) \<and> \<not> isNotBlank (long (heap wN 0))"
    by (simp add: wN_def isNotBlank_def TrimSpace_def spaceRunes_def)
  have l: "\<forall>e \<in> set (uniqueFlags X0 fsN wN). Lookup (formal wN) (fst e) \<noteq> None"
    unfolding uniqueFlags_fsN by (simp add: wN_def)
  have f: "Lookup (formal wN) [CHR 0xC2, CHR 0xA0] =
      Some \<lparr>Name = [CHR 0xC2, CHR 0xA0], Usage = ''u'', Value = 0, DefValue = ''d''\<rparr>"
    by (simp add: wN_def)
  have e: "\<exists>e \<in> set (uniqueFlags X0 fsN wN).
        \<not> isNotBlank (short (heap wN (snd e))) \<and> \<not> isNotBlank (long (heap wN (snd e)))"
    unfolding uniqueFlags_fsN using b by simp
  from blank_names_panic[of "heap wN 0" X0 wN
      "\<lparr>Name = [CHR 0xC2, CHR 0xA0], Usage = ''u'', Value = 0, DefValue = ''d''\<rparr>" fsN
      "''/usr/bin/app''" sys0 0]
    b l e f regN uniqueFlags_fsN
  show ?thesis by simp
qed

subsection \<open>The default-value suffix of a usage line\<close>

lemma Itoa_0: "Itoa 0 = ''0''"
  by (simp add: Itoa_def Itoa_nat.simps)

lemma typeString_stringValue:
  "(typeString v = ''*flag.stringValue'') = (case v of stringValue _ \<Rightarrow> True | _ \<Rightarrow> False)"
  by (cases v) (simp_all add: typeString_def)

text \<open>
  Claim C7, as amended. The parenthesised default-value suffix of a usage line is emitted
  exactly when the flag's default string, the \<open>DefValue\<close> recorded at registration,
  differs from the string form of a fresh zero holder of the bound holder's type, which is the
  empty string, \<open>false\<close>, \<open>0\<close> and the string of the empty slice; the value the
  holder has when the usage is rendered plays no part. When emitted, the suffix shows the
  descriptor's default, formatted with \<open>%q\<close> for the parser's string holder and
  with \<open>%v\<close> otherwise.
\<close>

theorem usage_default_suffix:
  "createUsageDefaultValue X w data f =
     (if DefValue f = Value_String X (zeroValue (mem w (Value f))) then []
      else '' (default '' @
           (case mem w (Value f) of
              stringValue _ \<Rightarrow> Sprintf_q X (defaultText X w (defaultValue data))
            | _ \<Rightarrow> defaultText X w (defaultValue data)) @
           '')'') \<and>
   Value_String X (zeroValue (stringValue s)) = [] \<and>
   Value_String X (zeroValue (boolValue b)) = ''false'' \<and>
   Value_String X (zeroValue (intValue i)) = ''0'' \<and>
   Value_String X (zeroValue (StringSlice ss)) = StringSlice_String X []"
  by (cases "mem w (Value f)")
     (simp_all add: createUsageDefaultValue_def isZeroValue_def Sprintf_any_def typeString_def
        zeroValue_def Value_String_def FormatBool_def Itoa_0)

text \<open>
  After the command line \<open>-n ""\<close> the holder of the example flag has the zero value of
  its type, and the usage line of the flag still carries the suffix of its default.
\<close>

theorem usage_default_suffix_counterexample:
  "flag_Set X0 ''n'' [] w1 = Some w1e \<and>
   Lookup (formal w1e) ''n'' = Some \<lparr>Name = ''n'', Usage = ''User Name'', Value = 0, DefValue = ''anon''\<rparr> \<and>
   Value_String X0 (mem w1e 0) = Value_String X0 (zeroValue (mem w1e 0)) \<and>
   createUsageDefaultValue X0 w1e (heap w1e 0)
     \<lparr>Name = ''n'', Usage = ''User Name'', Value = 0, DefValue = ''anon''\<rparr> =
     '' (default '' @ [DQ] @ ''anon'' @ [DQ] @ '')''"
  by (simp add: flag_Set_def w1e_def w1_def Value_Set_def Value_String_def zeroValue_def X0_def
      createUsageDefaultValue_def isZeroValue_def Sprintf_any_def typeString_def defaultText_def)

subsection \<open>Aliases share the descriptor and the holder\<close>

lemma dual_alias:
  assumes v1: "flag_Var X field shortN u wa = Inr wb"
    and v2: "flag_Var X field longN u wb' = Inr wc"
    and same: "formal wb' = formal wb" "brk wb' = brk wb"
    and r: "insertBoth shortN longN data (fs, wc) = (fs', w')"
    and d: "short data = shortN" "long data = longN"
  shows "aliased shortN longN field (brk wa) (fs', w')"
proof -
  note f1 = flag_Var_formal[OF v1] and f2 = flag_Var_formal[OF v2]
  note h1 = flag_Var_heap[OF v1] and h2 = flag_Var_heap[OF v2]
  note ib = insertBoth_result[OF r]
  have b: "brk wc = brk wa" using h1 h2 same by simp
  have n1: "Lookup (formal wa) shortN = None" using flag_Var_fresh[OF v1] .
  have n2: "Lookup (formal wa) longN = None" "shortN \<noteq> longN"
    using flag_Var_fresh[OF v2] f1 same
    by (auto simp: Lookup_append split: option.splits if_splits)
  have f: "formal w' = formal wa @
      [\<lparr>Name = shortN, Usage = u, Value = field, DefValue = Value_String X (mem wa field)\<rparr>,
       \<lparr>Name = longN, Usage = u, Value = field, DefValue = Value_String X (mem wb' field)\<rparr>]"
    using ib(5) f1 f2 same by simp
  show ?thesis
    using ib(1,2,3) b d n1 n2 by (simp add: aliased_def f Lookup_append)
qed

lemma register_aliased:
  assumes "register X r (fs, w) = Inr (fs', w')"
  shows "aliased (shortOf r) (longOf r) (fieldOf r) (brk w) (fs', w')"
proof (cases r)
  case (RVarP field longN shortN usageS)
  with assms obtain wb wc where
    "flag_Var X field shortN usageS w = Inr wb" "flag_Var X field longN usageS wb = Inr wc"
    "insertBoth shortN longN
       \<lparr>usage = usageS, short = shortN, long = longN, defaultValue = AValue field\<rparr> (fs, wc) = (fs', w')"
    by (auto simp: VarP_def split: sum.splits)
  from dual_alias[OF this(1,2) refl refl this(3)] show ?thesis using RVarP by simp
next
  case (RStringVarP field longN shortN dflt usageS)
  with assms obtain wb wc where
    "flag_Var X field shortN usageS (w\<lparr>mem := (mem w)(field := stringValue dflt)\<rparr>) = Inr wb"
    "flag_Var X field longN usageS (wb\<lparr>mem := (mem wb)(field := stringValue dflt)\<rparr>) = Inr wc"
    "insertBoth shortN longN
       \<lparr>usage = usageS, short = shortN, long = longN, defaultValue = AString dflt\<rparr> (fs, wc) = (fs', w')"
    by (auto simp: StringVarP_def flag_StringVar_def split: sum.splits)
  from dual_alias[OF this(1,2) _ _ this(3)] show ?thesis using RStringVarP by simp
next
  case (RStringVarEnv env field longN shortN dflt envName usageS)
  with assms obtain wb wc v where
    "flag_Var X field shortN usageS (w\<lparr>mem := (mem w)(field := stringValue v)\<rparr>) = Inr wb"
    "flag_Var X field longN usageS (wb\<lparr>mem := (mem wb)(field := stringValue v)\<rparr>) = Inr wc"
    "insertBoth shortN longN
       \<lparr>usage = usageS, short = shortN, long = longN, defaultValue = AString v\<rparr> (fs, wc) = (fs', w')"
    by (auto simp: StringVarEnv_def StringVarP_def flag_StringVar_def split: sum.splits)
  from dual_alias[OF this(1,2) _ _ this(3)] show ?thesis using RStringVarEnv by simp
next
  case (RBoolVarP field longN shortN dflt usageS)
  with assms obtain wb wc where
    "flag_Var X field shortN usageS (w\<lparr>mem := (mem w)(field := boolValue dflt)\<rparr>) = Inr wb"
    "flag_Var X field longN usageS (wb\<lparr>mem := (mem wb)(field := boolValue dflt)\<rparr>) = Inr wc"
    "insertBoth shortN longN
       \<lparr>usage = usageS, short = shortN, long = longN, defaultValue = AString (FormatBool dflt)\<rparr>
       (fs, wc) = (fs', w')"
    by (auto simp: BoolVarP_def flag_BoolVar_def split: sum.splits)
  from dual_alias[OF this(1,2) _ _ this(3)] show ?thesis using RBoolVarP by simp
next
  case (RIntVarP field longN shortN dflt usageS)
  with assms obtain wb wc where
    "flag_Var X field shortN usageS (w\<lparr>mem := (mem w)(field := intValue dflt)\<rparr>) = Inr wb"
    "flag_Var X field longN usageS (wb\<lparr>mem := (mem wb)(field := intValue dflt)\<rparr>) = Inr wc"
    "insertBoth shortN longN
       \<lparr>usage = usageS, short = shortN, long = longN, defaultValue = AString (Itoa dflt)\<rparr>
       (fs, wc) = (fs', w')"
    by (auto simp: IntVarP_def flag_IntVar_def split: sum.splits)
  from dual_alias[OF this(1,2) _ _ this(3)] show ?thesis using RIntVarP by simp
next
  case (RStringSliceVarP field longN shortN dflt usageS)
  with assms obtain wb wc data where
    "flag_Var X field shortN usageS (setDefaults X field dflt w) = Inr wb"
    "flag_Var X field longN usageS wb = Inr wc"
    "insertBoth shortN longN data (fs, wc) = (fs', w')" "short data = shortN" "long data = longN"
    by (auto simp: StringSliceVarP_def Let_def split: sum.splits)
  from dual_alias[OF this(1,2) refl refl this(3,4,5)] show ?thesis
    using RStringSliceVarP by (simp add: setDefaults_def)
qed

text \<open>
  Claim C2. After every successful registration under a short and a long name
  (\<open>VarP\<close>, \<open>StringVarP\<close>, \<open>StringVarEnv\<close>, \<open>BoolVarP\<close>, \<open>IntVarP\<close>,
  \<open>StringSliceVarP\<close>) both names map to the same descriptor address in the ordered map,
  the one allocated by the registration, so to one shared descriptor and not to two copies;
  both parser flags are bound to the same holder, and setting the flag through either name
  updates that one holder in the same way.
\<close>

theorem aliases_share_descriptor_and_holder:
  assumes "register X r (fs, w) = Inr (fs', w')"
  shows "valuesM (flagKeys fs') (shortOf r) = Some (brk w) \<and>
         valuesM (flagKeys fs') (longOf r) = Some (brk w) \<and>
         short (heap w' (brk w)) = shortOf r \<and> long (heap w' (brk w)) = longOf r \<and>
         map_option Value (Lookup (formal w') (shortOf r)) = Some (fieldOf r) \<and>
         map_option Value (Lookup (formal w') (longOf r)) = Some (fieldOf r) \<and>
         flag_Set X (shortOf r) s w' =
           Some (w'\<lparr>mem := (mem w')(fieldOf r := fst (Value_Set X s (mem w' (fieldOf r))))\<rparr>) \<and>
         flag_Set X (longOf r) s w' = flag_Set X (shortOf r) s w'"
proof -
  from register_aliased[OF assms]
  have a: "valuesM (flagKeys fs') (shortOf r) = Some (brk w)"
    "valuesM (flagKeys fs') (longOf r) = Some (brk w)"
    "short (heap w' (brk w)) = shortOf r" "long (heap w' (brk w)) = longOf r"
    "map_option Value (Lookup (formal w') (shortOf r)) = Some (fieldOf r)"
    "map_option Value (Lookup (formal w') (longOf r)) = Some (fieldOf r)"
    by (simp_all add: aliased_def)
  from a(5) obtain fS where s: "Lookup (formal w') (shortOf r) = Some fS" "Value fS = fieldOf r"
    by auto
  from a(6) obtain fL where l: "Lookup (formal w') (longOf r) = Some fL" "Value fL = fieldOf r"
    by auto
  show ?thesis using a s l by (simp add: flag_Set_def)
qed

theorem aliases_share_descriptor_and_holder_witness:
  "register X0 (RStringVarP 0 ''name'' ''n'' ''anon'' ''User Name'') (NewFlagSet, w0) = Inr (fs1, w1) \<and>
   valuesM (flagKeys fs1) ''n'' = Some 0 \<and> valuesM (flagKeys fs1) ''name'' = Some 0 \<and>
   flag_Set X0 ''n'' ''bob'' w1 = Some (w1\<lparr>mem := (mem w1)(0 := stringValue ''bob'')\<rparr>) \<and>
   flag_Set X0 ''name'' ''bob'' w1 = Some (w1\<lparr>mem := (mem w1)(0 := stringValue ''bob'')\<rparr>)"
proof -
  have r: "register X0 (RStringVarP 0 ''name'' ''n'' ''anon'' ''User Name'') (NewFlagSet, w0) = Inr (fs1, w1)"
    using reg1 by simp
  have b: "brk w0 = 0" by (simp add: w0_def)
  have v: "fst (Value_Set X0 ''bob'' (mem w1 0)) = stringValue ''bob''"
    by (simp add: w1_def Value_Set_def)
  from aliases_share_descriptor_and_holder[OF r, of "''bob''"] r b v show ?thesis by simp
qed

end
